theory Spec2Isabelle
  imports Complex_Main "HOL-Library.AList" "HOL-Library.Sublist"
begin

section \<open>Python values\<close>

text \<open>
  The plugin handles two kinds of dynamically typed data: JSON documents, as
  \<^verbatim>\<open>response.json()\<close> and \<^verbatim>\<open>json.loads\<close> return them, and the scene-parameter dictionary
  built from them. A JSON object has string keys; the scene dictionary is the target of
  \<^verbatim>\<open>dict.update\<close>, which also accepts a sequence of pairs and can so create keys that are
  numbers or \<^verbatim>\<open>None\<close>. Python identifies the keys \<^verbatim>\<open>True\<close>, \<^verbatim>\<open>1\<close> and \<^verbatim>\<open>1.0\<close>, so a numeric
  key is kept by its value, a real number. Dictionaries are association lists in
  insertion order, read with \<^const>\<open>map_of\<close> and written with \<^const>\<open>AList.update\<close>
  (overwrite in place, else append), which is the order Python keeps.

  A Python string is a sequence of Unicode code points. Here it is the list of the bytes
  of its UTF-8 encoding: a code point below U+0080 is one byte, any other is a lead byte
  followed by continuation bytes, the bytes \<^verbatim>\<open>10xxxxxx\<close>. Concatenation, the substring
  test and the suffix test on code points are the same operations on the bytes; the
  operations that work code point by code point (indexing, iteration, \<^verbatim>\<open>strip\<close>,
  \<^verbatim>\<open>lower\<close>) first split the bytes with \<open>chars_of\<close>.
\<close>

datatype json =
    JNull
  | JBool bool
  | JInt int
  | JFloat real
  | JStr string
  | JList "json list"
  | JObj "(string \<times> json) list"

datatype pykey = KNone | KNum real | KStr string

type_synonym pydict = "(pykey \<times> json) list"

datatype py_error =
    TypeError | KeyError | IndexError | AttributeError | ValueError
  | JSONDecodeError | RequestException | RuntimeError | PlainException string

text \<open>Sequencing of computations that may raise: the first exception wins.\<close>

definition ebind :: "'e + 'a \<Rightarrow> ('a \<Rightarrow> 'e + 'b) \<Rightarrow> 'e + 'b" where
  "ebind m f = (case m of Inl e \<Rightarrow> Inl e | Inr v \<Rightarrow> f v)"

text \<open>
  The code points of a string, each as the bytes that encode it: a byte starts a new
  code point unless the byte after it is a continuation byte.
\<close>

fun is_cont :: "char \<Rightarrow> bool" where
  "is_cont (Char b0 b1 b2 b3 b4 b5 b6 b7) = (b7 \<and> \<not> b6)"

fun chars_of :: "string \<Rightarrow> string list" where
  "chars_of [] = []"
| "chars_of (c # cs) =
     (case chars_of cs of
        [] \<Rightarrow> [[c]]
      | u # us \<Rightarrow> if is_cont (hd u) then (c # u) # us else [c] # u # us)"

text \<open>\<^verbatim>\<open>bool(v)\<close>: the truth value of a JSON value.\<close>

fun truthy :: "json \<Rightarrow> bool" where
  "truthy JNull = False"
| "truthy (JBool b) = b"
| "truthy (JInt i) = (i \<noteq> 0)"
| "truthy (JFloat r) = (r \<noteq> 0)"
| "truthy (JStr s) = (s \<noteq> [])"
| "truthy (JList xs) = (xs \<noteq> [])"
| "truthy (JObj kvs) = (kvs \<noteq> [])"

text \<open>\<^verbatim>\<open>a or b\<close> on optional values, \<^verbatim>\<open>None\<close> being the absent one.\<close>

definition truthy_opt :: "json option \<Rightarrow> bool" where
  "truthy_opt v = (case v of None \<Rightarrow> False | Some x \<Rightarrow> truthy x)"

definition py_or :: "json option \<Rightarrow> json option \<Rightarrow> json option" where
  "py_or a b = (if truthy_opt a then a else b)"

text \<open>\<^verbatim>\<open>needle in s\<close> on strings is the substring test.\<close>

fun contains_str :: "string \<Rightarrow> string \<Rightarrow> bool" where
  "contains_str needle [] = (needle = [])"
| "contains_str needle (c # cs) = (prefix needle (c # cs) \<or> contains_str needle cs)"

text \<open>
  \<^verbatim>\<open>k in v\<close> for a string literal \<open>k\<close>: key membership on a dictionary, element membership
  on a list, substring on a string, \<^verbatim>\<open>TypeError\<close> on anything else.
\<close>

fun py_in :: "string \<Rightarrow> json \<Rightarrow> py_error + bool" where
  "py_in k (JObj kvs) = Inr (k \<in> fst ` set kvs)"
| "py_in k (JList xs) = Inr (JStr k \<in> set xs)"
| "py_in k (JStr s) = Inr (contains_str k s)"
| "py_in k JNull = Inl TypeError"
| "py_in k (JBool b) = Inl TypeError"
| "py_in k (JInt i) = Inl TypeError"
| "py_in k (JFloat r) = Inl TypeError"

text \<open>
  \<^verbatim>\<open>v[k]\<close> for a string literal \<open>k\<close>: \<^verbatim>\<open>KeyError\<close> on a dictionary without the key,
  \<^verbatim>\<open>TypeError\<close> on a list or a string (their indices are integers) and on a scalar.
\<close>

fun py_getitem :: "json \<Rightarrow> string \<Rightarrow> py_error + json" where
  "py_getitem (JObj kvs) k = (case map_of kvs k of None \<Rightarrow> Inl KeyError | Some v \<Rightarrow> Inr v)"
| "py_getitem JNull k = Inl TypeError"
| "py_getitem (JBool b) k = Inl TypeError"
| "py_getitem (JInt i) k = Inl TypeError"
| "py_getitem (JFloat r) k = Inl TypeError"
| "py_getitem (JStr s) k = Inl TypeError"
| "py_getitem (JList xs) k = Inl TypeError"

text \<open>
  \<^verbatim>\<open>v[0]\<close>: the first element of a list, the first code point of a string,
  \<^verbatim>\<open>IndexError\<close> when there is none; on a dictionary the key \<^verbatim>\<open>0\<close>, which no JSON object
  has; \<^verbatim>\<open>TypeError\<close> on a scalar.
\<close>

fun py_index0 :: "json \<Rightarrow> py_error + json" where
  "py_index0 (JList []) = Inl IndexError"
| "py_index0 (JList (x # xs)) = Inr x"
| "py_index0 (JStr s) = (case chars_of s of [] \<Rightarrow> Inl IndexError | u # us \<Rightarrow> Inr (JStr u))"
| "py_index0 (JObj kvs) = Inl KeyError"
| "py_index0 JNull = Inl TypeError"
| "py_index0 (JBool b) = Inl TypeError"
| "py_index0 (JInt i) = Inl TypeError"
| "py_index0 (JFloat r) = Inl TypeError"

text \<open>
  \<^verbatim>\<open>v.get(k)\<close>: only a dictionary has the method; the absent key gives \<^verbatim>\<open>None\<close>, here
  the absent option.
\<close>

fun py_get :: "json \<Rightarrow> string \<Rightarrow> py_error + json option" where
  "py_get (JObj kvs) k = Inr (map_of kvs k)"
| "py_get JNull k = Inl AttributeError"
| "py_get (JBool b) k = Inl AttributeError"
| "py_get (JInt i) k = Inl AttributeError"
| "py_get (JFloat r) k = Inl AttributeError"
| "py_get (JStr s) k = Inl AttributeError"
| "py_get (JList xs) k = Inl AttributeError"

fun is_dict :: "json \<Rightarrow> bool" where
  "is_dict (JObj kvs) = True"
| "is_dict v = False"

fun is_list :: "json \<Rightarrow> bool" where
  "is_list (JList xs) = True"
| "is_list v = False"

fun is_str :: "json \<Rightarrow> bool" where
  "is_str (JStr s) = True"
| "is_str v = False"

subsection \<open>Strings\<close>

text \<open>
  \<^verbatim>\<open>str.lower\<close> maps every code point by the lower-case mapping of the Unicode
  database. On an ASCII capital that is the small letter, on every other ASCII
  character the character itself. Two code points beyond ASCII lower to ASCII letters:
  the Kelvin sign U+212A to \<^verbatim>\<open>k\<close>, and the dotted capital I U+0130 to \<^verbatim>\<open>i\<close> followed by
  U+0307. The rest of the database is a parameter, the \<open>case_table\<close>: it gives the
  lowering of a code point beyond ASCII and is told the code points before and after
  it, since the capital sigma is lowered by its position in the word.
\<close>

type_synonym case_table = "string list \<Rightarrow> string \<Rightarrow> string list \<Rightarrow> string"

definition lower_char :: "char \<Rightarrow> char" where
  "lower_char c =
     (case map_of (zip ''ABCDEFGHIJKLMNOPQRSTUVWXYZ'' ''abcdefghijklmnopqrstuvwxyz'') c of
        None \<Rightarrow> c
      | Some d \<Rightarrow> d)"

definition lower_point :: "string \<Rightarrow> string \<Rightarrow> string" where
  "lower_point other u =
     (case u of
        [c] \<Rightarrow> [lower_char c]
      | _ \<Rightarrow>
          if u = [CHR 0xE2, CHR 0x84, CHR 0xAA] then ''k''
          else if u = [CHR 0xC4, CHR 0xB0] then [CHR ''i'', CHR 0xCC, CHR 0x87]
          else other)"

fun lower_points :: "case_table \<Rightarrow> string list \<Rightarrow> string list \<Rightarrow> string" where
  "lower_points tbl before [] = []"
| "lower_points tbl before (u # after) =
     lower_point (tbl before u after) u @ lower_points tbl (before @ [u]) after"

definition lower :: "case_table \<Rightarrow> string \<Rightarrow> string" where
  "lower tbl s = lower_points tbl [] (chars_of s)"

definition endswith :: "string \<Rightarrow> string \<Rightarrow> bool" where
  "endswith s suf = suffix suf s"

text \<open>
  \<^verbatim>\<open>s.strip()\<close> removes the white space at both ends; \<^verbatim>\<open>not s.strip()\<close> tests the rest.
  White space is what \<^verbatim>\<open>str.isspace\<close> accepts: U+0009 to U+000D, U+001C to U+0020,
  U+0085, U+00A0, U+1680, U+2000 to U+200A, U+2028, U+2029, U+202F, U+205F and U+3000.
\<close>

definition whitespace :: "string list" where
  "whitespace =
     [[CHR 0x09], [CHR 0x0A], [CHR 0x0B], [CHR 0x0C], [CHR 0x0D],
      [CHR 0x1C], [CHR 0x1D], [CHR 0x1E], [CHR 0x1F], [CHR 0x20],
      [CHR 0xC2, CHR 0x85], [CHR 0xC2, CHR 0xA0], [CHR 0xE1, CHR 0x9A, CHR 0x80],
      [CHR 0xE2, CHR 0x80, CHR 0x80], [CHR 0xE2, CHR 0x80, CHR 0x81],
      [CHR 0xE2, CHR 0x80, CHR 0x82], [CHR 0xE2, CHR 0x80, CHR 0x83],
      [CHR 0xE2, CHR 0x80, CHR 0x84], [CHR 0xE2, CHR 0x80, CHR 0x85],
      [CHR 0xE2, CHR 0x80, CHR 0x86], [CHR 0xE2, CHR 0x80, CHR 0x87],
      [CHR 0xE2, CHR 0x80, CHR 0x88], [CHR 0xE2, CHR 0x80, CHR 0x89],
      [CHR 0xE2, CHR 0x80, CHR 0x8A], [CHR 0xE2, CHR 0x80, CHR 0xA8],
      [CHR 0xE2, CHR 0x80, CHR 0xA9], [CHR 0xE2, CHR 0x80, CHR 0xAF],
      [CHR 0xE2, CHR 0x81, CHR 0x9F], [CHR 0xE3, CHR 0x80, CHR 0x80]]"

definition is_space :: "string \<Rightarrow> bool" where
  "is_space u = (u \<in> set whitespace)"

definition strip :: "string \<Rightarrow> string" where
  "strip s = concat (rev (dropWhile is_space (rev (dropWhile is_space (chars_of s)))))"

definition strip_empty :: "string \<Rightarrow> bool" where
  "strip_empty s = (strip s = [])"

subsection \<open>Dictionaries\<close>

text \<open>The key a JSON value is stored under; a list or a dictionary is unhashable.\<close>

fun key_of :: "json \<Rightarrow> py_error + pykey" where
  "key_of JNull = Inr KNone"
| "key_of (JBool b) = Inr (KNum (if b then 1 else 0))"
| "key_of (JInt i) = Inr (KNum (of_int i))"
| "key_of (JFloat r) = Inr (KNum r)"
| "key_of (JStr s) = Inr (KStr s)"
| "key_of (JList xs) = Inl TypeError"
| "key_of (JObj kvs) = Inl TypeError"

text \<open>
  One element of the sequence given to \<^verbatim>\<open>dict.update\<close>: it is iterated and must yield
  exactly two items, the key and the value. A list yields its elements, a string its
  code points, a dictionary its keys; a scalar is not iterable.
\<close>

fun pair_of :: "json \<Rightarrow> py_error + (pykey \<times> json)" where
  "pair_of (JList [k, v]) = ebind (key_of k) (\<lambda>k'. Inr (k', v))"
| "pair_of (JList xs) = Inl ValueError"
| "pair_of (JStr s) =
     (case chars_of s of [a, b] \<Rightarrow> Inr (KStr a, JStr b) | _ \<Rightarrow> Inl ValueError)"
| "pair_of (JObj [(k1, v1), (k2, v2)]) = Inr (KStr k1, JStr k2)"
| "pair_of (JObj kvs) = Inl ValueError"
| "pair_of JNull = Inl TypeError"
| "pair_of (JBool b) = Inl TypeError"
| "pair_of (JInt i) = Inl TypeError"
| "pair_of (JFloat r) = Inl TypeError"

fun update_pairs :: "pydict \<Rightarrow> json list \<Rightarrow> py_error + pydict" where
  "update_pairs d [] = Inr d"
| "update_pairs d (x # xs) =
     ebind (pair_of x) (\<lambda>(k, v). update_pairs (AList.update k v d) xs)"

fun update_items :: "pydict \<Rightarrow> (string \<times> json) list \<Rightarrow> pydict" where
  "update_items d [] = d"
| "update_items d ((k, v) # kvs) = update_items (AList.update (KStr k) v d) kvs"

text \<open>
  \<^verbatim>\<open>d.update(other)\<close>: a dictionary is merged key by key; any other value is iterated as
  a sequence of pairs (the code points of a non-empty string are too short to be pairs).
\<close>

fun dict_update :: "pydict \<Rightarrow> json \<Rightarrow> py_error + pydict" where
  "dict_update d (JObj kvs) = Inr (update_items d kvs)"
| "dict_update d (JList xs) = update_pairs d xs"
| "dict_update d (JStr s) = (if s = [] then Inr d else Inl ValueError)"
| "dict_update d JNull = Inl TypeError"
| "dict_update d (JBool b) = Inl TypeError"
| "dict_update d (JInt i) = Inl TypeError"
| "dict_update d (JFloat r) = Inl TypeError"

definition keys :: "pydict \<Rightarrow> pykey set" where
  "keys d = fst ` set d"

text \<open>\<^verbatim>\<open>d.get(k)\<close> and \<^verbatim>\<open>d.get(k, default)\<close> on the scene dictionary.\<close>

definition dget :: "pydict \<Rightarrow> string \<Rightarrow> json option" where
  "dget d k = map_of d (KStr k)"

definition dget_default :: "pydict \<Rightarrow> string \<Rightarrow> json \<Rightarrow> json" where
  "dget_default d k dflt = (case dget d k of None \<Rightarrow> dflt | Some v \<Rightarrow> v)"

definition dset :: "pydict \<Rightarrow> string \<Rightarrow> json \<Rightarrow> pydict" where
  "dset d k v = AList.update (KStr k) v d"

section \<open>scene\_parser.py\<close>

text \<open>
  The outcome of \<^verbatim>\<open>requests.post\<close> followed by \<^verbatim>\<open>raise_for_status()\<close> and \<^verbatim>\<open>.json()\<close>:
  one of the three raised, or the decoded body. The service is a parameter of the
  model, as is \<^verbatim>\<open>json.loads\<close> (\<open>None\<close> for \<^verbatim>\<open>JSONDecodeError\<close>).
\<close>

datatype http_result = HttpRaises | HttpJson json

definition DEFAULT_PARAMETERS :: pydict where
  "DEFAULT_PARAMETERS =
     [(KStr ''camera_angle'', JStr ''Eye Level''),
      (KStr ''lighting'', JStr ''Natural''),
      (KStr ''composition'', JStr ''Wide Shot''),
      (KStr ''field_of_view'', JStr ''35mm'')]"

text \<open>
  \<^verbatim>\<open>data["result"]["structured_prompt"]\<close> behind the guard
  \<^verbatim>\<open>"result" not in data or "structured_prompt" not in data["result"]\<close>: \<open>Inr None\<close> when
  the guard holds, an exception when a test or a subscript raises.
\<close>

definition structured_prompt_of :: "json \<Rightarrow> py_error + json option" where
  "structured_prompt_of data =
     ebind (py_in ''result'' data) (\<lambda>has_result.
       if \<not> has_result then Inr None
       else ebind (py_getitem data ''result'') (\<lambda>res.
         ebind (py_in ''structured_prompt'' res) (\<lambda>has_prompt.
           if \<not> has_prompt then Inr None
           else ebind (py_getitem res ''structured_prompt'') (\<lambda>s. Inr (Some s)))))"

text \<open>\<^verbatim>\<open>json.loads(x)\<close>: \<^verbatim>\<open>TypeError\<close> unless \<open>x\<close> is a string.\<close>

definition loads :: "(string \<Rightarrow> json option) \<Rightarrow> json \<Rightarrow> py_error + json" where
  "loads json_loads x =
     (case x of
        JStr s \<Rightarrow> (case json_loads s of None \<Rightarrow> Inl JSONDecodeError | Some v \<Rightarrow> Inr v)
      | _ \<Rightarrow> Inl TypeError)"

text \<open>The body of the \<^verbatim>\<open>try\<close> of \<^verbatim>\<open>get_scene_parameters\<close>, after the response arrived.\<close>

definition scene_parameters_of :: "(string \<Rightarrow> json option) \<Rightarrow> json \<Rightarrow> py_error + pydict" where
  "scene_parameters_of json_loads data =
     ebind (structured_prompt_of data) (\<lambda>sp.
       case sp of
         None \<Rightarrow> Inr DEFAULT_PARAMETERS
       | Some structured_prompt_str \<Rightarrow>
           (case loads json_loads structured_prompt_str of
              Inl JSONDecodeError \<Rightarrow> Inr DEFAULT_PARAMETERS
            | Inl e \<Rightarrow> Inl e
            | Inr structured_params \<Rightarrow> dict_update DEFAULT_PARAMETERS structured_params))"

definition get_scene_parameters ::
  "(string \<Rightarrow> http_result) \<Rightarrow> (string \<Rightarrow> json option) \<Rightarrow> string \<Rightarrow> pydict" where
  "get_scene_parameters api json_loads text_prompt =
     (case api text_prompt of
        HttpRaises \<Rightarrow> DEFAULT_PARAMETERS
      | HttpJson data \<Rightarrow>
          (case scene_parameters_of json_loads data of
             Inl e \<Rightarrow> DEFAULT_PARAMETERS
           | Inr final_params \<Rightarrow> final_params))"


subsection \<open>Refinement\<close>

text \<open>
  The lighting edits of \<^verbatim>\<open>_fallback_refinement\<close> all have one shape: when
  \<^verbatim>\<open>refined.get("lighting")\<close> is a dictionary one entry of it is assigned, otherwise
  \<^verbatim>\<open>refined["lighting"]\<close> is replaced by a new two-entry dictionary whose
  \<^verbatim>\<open>"direction"\<close> is \<^verbatim>\<open>refined.get("lighting", "natural")\<close>.
\<close>

definition set_lighting :: "pydict \<Rightarrow> string \<Rightarrow> string \<Rightarrow> pydict" where
  "set_lighting refined k v =
     (case dget refined ''lighting'' of
        Some (JObj l) \<Rightarrow> dset refined ''lighting'' (JObj (AList.update k (JStr v) l))
      | _ \<Rightarrow>
          dset refined ''lighting''
            (JObj [(''direction'', dget_default refined ''lighting'' (JStr ''natural'')),
                   (k, JStr v)]))"

text \<open>
  The \<^verbatim>\<open>"warm"\<close> branch also assigns
  \<^verbatim>\<open>refined["lighting"]["quality"] = refined["lighting"].get("quality", "soft")\<close> when the
  lighting is a dictionary.
\<close>

definition warm_lighting :: "pydict \<Rightarrow> pydict" where
  "warm_lighting refined =
     (case dget refined ''lighting'' of
        Some (JObj l) \<Rightarrow>
          (let l1 = AList.update ''temperature'' (JStr ''warm'') l;
               q = (case map_of l1 ''quality'' of None \<Rightarrow> JStr ''soft'' | Some x \<Rightarrow> x)
           in dset refined ''lighting'' (JObj (AList.update ''quality'' q l1)))
      | _ \<Rightarrow>
          dset refined ''lighting''
            (JObj [(''direction'', dget_default refined ''lighting'' (JStr ''natural'')),
                   (''temperature'', JStr ''warm'')]))"

definition refine_temperature :: "string \<Rightarrow> pydict \<Rightarrow> pydict" where
  "refine_temperature request_lower refined =
     (if contains_str ''warm'' request_lower then warm_lighting refined
      else if contains_str ''cool'' request_lower \<or> contains_str ''cold'' request_lower
        then set_lighting refined ''temperature'' ''cool''
      else refined)"

definition refine_intensity :: "string \<Rightarrow> pydict \<Rightarrow> pydict" where
  "refine_intensity request_lower refined =
     (if contains_str ''bright'' request_lower \<or> contains_str ''brighter'' request_lower
        then set_lighting refined ''intensity'' ''bright''
      else if contains_str ''dim'' request_lower \<or> contains_str ''darker'' request_lower
        then set_lighting refined ''intensity'' ''dim''
      else refined)"

definition refine_camera_angle :: "string \<Rightarrow> pydict \<Rightarrow> pydict" where
  "refine_camera_angle request_lower refined =
     (if contains_str ''low angle'' request_lower \<or> contains_str ''lower angle'' request_lower
        then dset refined ''camera_angle'' (JStr ''Low Angle'')
      else if contains_str ''high angle'' request_lower
              \<or> contains_str ''higher angle'' request_lower
              \<or> contains_str ''overhead'' request_lower
        then dset refined ''camera_angle'' (JStr ''High Angle'')
      else if contains_str ''eye level'' request_lower
        then dset refined ''camera_angle'' (JStr ''Eye Level'')
      else refined)"

definition refine_field_of_view :: "string \<Rightarrow> pydict \<Rightarrow> pydict" where
  "refine_field_of_view request_lower refined =
     (if contains_str ''close'' request_lower \<or> contains_str ''closer'' request_lower
        then dset refined ''field_of_view'' (JStr ''close up'')
      else if contains_str ''wide'' request_lower \<or> contains_str ''wider'' request_lower
        then dset refined ''field_of_view'' (JStr ''wide'')
      else if contains_str ''medium'' request_lower
        then dset refined ''field_of_view'' (JStr ''normal'')
      else refined)"

definition refine_quality :: "string \<Rightarrow> pydict \<Rightarrow> pydict" where
  "refine_quality request_lower refined =
     (if contains_str ''soft'' request_lower \<or> contains_str ''softer'' request_lower
        then set_lighting refined ''quality'' ''soft''
      else if contains_str ''hard'' request_lower \<or> contains_str ''harsh'' request_lower
        then set_lighting refined ''quality'' ''hard''
      else refined)"

text \<open>
  \<^verbatim>\<open>_fallback_refinement\<close>: the five keyword groups in the order of the source, each
  working on the result of the one before. The function works on a shallow copy; the
  nested lighting dictionary it assigns into is shared with the caller's dictionary,
  which the caller replaces by the returned one.
\<close>

definition fallback_refinement :: "case_table \<Rightarrow> pydict \<Rightarrow> string \<Rightarrow> pydict" where
  "fallback_refinement tbl existing_params refinement_request =
     (let request_lower = lower tbl refinement_request
      in refine_quality request_lower
           (refine_field_of_view request_lower
             (refine_camera_angle request_lower
               (refine_intensity request_lower
                 (refine_temperature request_lower existing_params)))))"

text \<open>
  The prompt sent for a refinement. \<^verbatim>\<open>json.dumps(existing_params, indent=2)\<close> is a
  parameter; it does not raise on a dictionary that came out of JSON.
\<close>

definition combined_prompt :: "(pydict \<Rightarrow> string) \<Rightarrow> pydict \<Rightarrow> string \<Rightarrow> string" where
  "combined_prompt json_dumps existing_params refinement_request =
     ''Current scene settings:'' @ [CHR 0x0A] @ json_dumps existing_params
     @ [CHR 0x0A, CHR 0x0A] @ ''Director'' @ [CHR 0x27] @ ''s refinement request: ''
     @ [CHR 0x22] @ refinement_request @ [CHR 0x22] @ [CHR 0x0A, CHR 0x0A]
     @ ''Please modify the scene settings based on the director'' @ [CHR 0x27]
     @ ''s request, keeping all other settings unchanged.''"

text \<open>The body of the \<^verbatim>\<open>try\<close> of \<^verbatim>\<open>refine_scene_parameters\<close>, after the response arrived.\<close>

definition refined_parameters_of ::
  "case_table \<Rightarrow> (string \<Rightarrow> json option) \<Rightarrow> pydict \<Rightarrow> string \<Rightarrow> json
     \<Rightarrow> py_error + pydict" where
  "refined_parameters_of tbl json_loads existing_params refinement_request data =
     ebind (structured_prompt_of data) (\<lambda>sp.
       case sp of
         None \<Rightarrow> Inr (fallback_refinement tbl existing_params refinement_request)
       | Some structured_prompt_str \<Rightarrow>
           (case loads json_loads structured_prompt_str of
              Inl JSONDecodeError \<Rightarrow>
                Inr (fallback_refinement tbl existing_params refinement_request)
            | Inl e \<Rightarrow> Inl e
            | Inr refined_params \<Rightarrow> dict_update existing_params refined_params))"

definition refine_scene_parameters ::
  "case_table \<Rightarrow> (string \<Rightarrow> http_result) \<Rightarrow> (pydict \<Rightarrow> string) \<Rightarrow> (string \<Rightarrow> json option)
     \<Rightarrow> pydict \<Rightarrow> string \<Rightarrow> pydict" where
  "refine_scene_parameters tbl api json_dumps json_loads existing_params refinement_request =
     (case api (combined_prompt json_dumps existing_params refinement_request) of
        HttpRaises \<Rightarrow> fallback_refinement tbl existing_params refinement_request
      | HttpJson data \<Rightarrow>
          (case refined_parameters_of tbl json_loads existing_params refinement_request data of
             Inl e \<Rightarrow> fallback_refinement tbl existing_params refinement_request
           | Inr final_params \<Rightarrow> final_params))"

section \<open>The export path of the Export to Set operator\<close>

text \<open>
  \<^verbatim>\<open>filepath = self.filepath; if not filepath.lower().endswith('.json'): filepath += '.json'\<close>
\<close>

definition export_filepath :: "case_table \<Rightarrow> string \<Rightarrow> string" where
  "export_filepath tbl filepath =
     (if \<not> endswith (lower tbl filepath) ''.json'' then filepath @ ''.json'' else filepath)"


section \<open>cinematographer.py\<close>

text \<open>
  The image client talks to the outside: it posts requests, sleeps, polls, downloads and
  writes temporary files. What it does is recorded in a state that every function takes
  and returns: the files that exist and the events so far, oldest first. What the outside
  answers is a parameter, the \<open>world\<close>: the reply to each request (\<^const>\<open>HttpRaises\<close>
  when \<^verbatim>\<open>requests\<close>, \<^verbatim>\<open>raise_for_status\<close> or \<^verbatim>\<open>.json()\<close> raised), the reply to the
  \<open>i\<close>-th poll of a status URL, and how a download goes. Function names drop the leading
  underscore of the source.
\<close>

datatype timer_fn =
    UpdateScene string
  | UpdateSceneRefined string
  | ImportCard string

datatype event =
    Post string
  | Sleep nat
  | GetStatus json
  | Download json
  | SetStatus string
  | RegisterTimer timer_fn

record sys =
  files :: "string set"
  events :: "event list"

record world =
  image_api :: "string \<Rightarrow> http_result"
  image_status :: "nat \<Rightarrow> http_result"
  rmbg_api :: "json \<Rightarrow> http_result"
  rmbg_status :: "nat \<Rightarrow> http_result"
  download_ok :: "json \<Rightarrow> bool"
  mkstemp_ok :: bool
  tempdir :: string
  random_name :: string
  copy_ok :: bool

definition emit :: "event \<Rightarrow> sys \<Rightarrow> sys" where
  "emit e s = s\<lparr>events := events s @ [e]\<rparr>"

definition BRIA_IMAGE_ENDPOINT :: string where
  "BRIA_IMAGE_ENDPOINT = ''https://engine.prod.bria-api.com/v2/image/generate''"

definition BRIA_RMBG_ENDPOINT :: string where
  "BRIA_RMBG_ENDPOINT = ''https://engine.prod.bria-api.com/v2/image/edit/remove_background''"

subsection \<open>The prompt\<close>

text \<open>
  \<^verbatim>\<open>sep.join(parts)\<close> raises \<^verbatim>\<open>TypeError\<close> on an item that is not a string. An f-string
  formats a string as itself and any other value by \<^verbatim>\<open>str\<close>, a parameter here.
\<close>

fun join_strs :: "string \<Rightarrow> json list \<Rightarrow> py_error + string" where
  "join_strs sep [] = Inr []"
| "join_strs sep [JStr s] = Inr s"
| "join_strs sep (JStr s # x # xs) = ebind (join_strs sep (x # xs)) (\<lambda>r. Inr (s @ sep @ r))"
| "join_strs sep (v # xs) = Inl TypeError"

definition fmt :: "(json \<Rightarrow> string) \<Rightarrow> json \<Rightarrow> string" where
  "fmt py_str v = (case v of JStr s \<Rightarrow> s | _ \<Rightarrow> py_str v)"

definition obj_descs :: "json list \<Rightarrow> json list" where
  "obj_descs objects =
     concat (map (\<lambda>obj. case obj of
                            JObj kvs \<Rightarrow> (case map_of kvs ''description'' of
                                           None \<Rightarrow> []
                                         | Some d \<Rightarrow> [d])
                          | _ \<Rightarrow> [])
                 (take 3 objects))"

definition lighting_part :: "(json \<Rightarrow> string) \<Rightarrow> pydict \<Rightarrow> json list" where
  "lighting_part py_str scene_data =
     (case dget scene_data ''lighting'' of
        Some (JObj l) \<Rightarrow>
          [JStr (''Lighting: ''
                 @ fmt py_str (case map_of l ''direction'' of None \<Rightarrow> JStr [] | Some v \<Rightarrow> v)
                 @ '' ''
                 @ fmt py_str (case map_of l ''conditions'' of None \<Rightarrow> JStr [] | Some v \<Rightarrow> v)
                 @ '' ''
                 @ fmt py_str (case map_of l ''shadows'' of None \<Rightarrow> JStr [] | Some v \<Rightarrow> v))]
      | Some (JStr l) \<Rightarrow> [JStr (''Lighting: '' @ l)]
      | _ \<Rightarrow> [])"

definition build_prompt :: "(json \<Rightarrow> string) \<Rightarrow> pydict \<Rightarrow> py_error + string" where
  "build_prompt py_str scene_data =
     (let base = (case dget scene_data ''short_description'' of
                    Some v \<Rightarrow> [v]
                  | None \<Rightarrow> (case dget scene_data ''prompt'' of Some v \<Rightarrow> [v] | None \<Rightarrow> []));
          lighting = lighting_part py_str scene_data;
          background =
            (case dget scene_data ''background_setting'' of
               Some v \<Rightarrow> [JStr (''Background: '' @ fmt py_str v)]
             | None \<Rightarrow> (case dget scene_data ''background'' of
                          Some v \<Rightarrow> [JStr (''Background: '' @ fmt py_str v)]
                        | None \<Rightarrow> []))
      in ebind (case dget scene_data ''objects'' of
                  Some (JList objects) \<Rightarrow>
                    (if obj_descs objects = [] then Inr []
                     else ebind (join_strs '', '' (obj_descs objects))
                            (\<lambda>j. Inr [JStr (''Objects: '' @ j)]))
                | _ \<Rightarrow> Inr [])
           (\<lambda>objs. ebind (join_strs '' '' (base @ lighting @ background @ objs))
              (\<lambda>final_prompt.
                 Inr (if strip_empty final_prompt then ''A cinematic scene''
                      else final_prompt))))"

subsection \<open>Polling\<close>

text \<open>
  The three poll loops of the module have one frame,
  \<^verbatim>\<open>for _ in range(max_retries): time.sleep(1); try: <GET, body> except Exception: <log>\<close>,
  and differ in the body and in \<^verbatim>\<open>max_retries\<close>. A body ends an iteration in one of three
  ways: it falls through (also when anything in the \<^verbatim>\<open>try\<close> raised), it leaves the loop
  with \<^verbatim>\<open>break\<close>, or it returns from the function. A loop that ends in \<open>Continue\<close> has
  used up its range.
\<close>

datatype poll_step = Continue | Break json | Return "json option"

fun poll_loop ::
  "(http_result \<Rightarrow> poll_step) \<Rightarrow> (nat \<Rightarrow> http_result) \<Rightarrow> json \<Rightarrow> nat \<Rightarrow> nat \<Rightarrow> sys
     \<Rightarrow> poll_step \<times> sys" where
  "poll_loop body status status_url 0 i s = (Continue, s)"
| "poll_loop body status status_url (Suc n) i s =
     (let s' = emit (GetStatus status_url) (emit (Sleep 1) s)
      in case body (status i) of
           Continue \<Rightarrow> poll_loop body status status_url n (Suc i) s'
         | Break u \<Rightarrow> (Break u, s')
         | Return r \<Rightarrow> (Return r, s'))"

text \<open>\<^verbatim>\<open>a in d and b in d[a]\<close>\<close>

definition has_nested :: "json \<Rightarrow> string \<Rightarrow> string \<Rightarrow> py_error + bool" where
  "has_nested d a b =
     ebind (py_in a d) (\<lambda>h. if h then ebind (py_getitem d a) (py_in b) else Inr False)"

text \<open>\<^verbatim>\<open>status_data.get("status") == s\<close>\<close>

definition status_is :: "json \<Rightarrow> string \<Rightarrow> py_error + bool" where
  "status_is status_data st = ebind (py_get status_data ''status'') (\<lambda>v. Inr (v = Some (JStr st)))"

text \<open>The body of the poll loop of \<^verbatim>\<open>_make_api_call\<close>, on the decoded status.\<close>

definition completed_background :: "json \<Rightarrow> py_error + poll_step" where
  "completed_background status_data =
     ebind (has_nested status_data ''result'' ''image_url'') (\<lambda>c1.
       if c1 then
         ebind (py_getitem status_data ''result'') (\<lambda>r.
           ebind (py_getitem r ''image_url'') (\<lambda>u. Inr (Break u)))
       else ebind (has_nested status_data ''result'' ''urls'') (\<lambda>c2.
         if c2 then
           ebind (py_getitem status_data ''result'') (\<lambda>r.
             ebind (py_getitem r ''urls'') (\<lambda>us.
               ebind (py_index0 us) (\<lambda>u. Inr (Break u))))
         else ebind (py_in ''image_url'' status_data) (\<lambda>c3.
           if c3 then ebind (py_getitem status_data ''image_url'') (\<lambda>u. Inr (Break u))
           else Inr (Return None))))"

definition status_step_background :: "json \<Rightarrow> py_error + poll_step" where
  "status_step_background status_data =
     ebind (status_is status_data ''COMPLETED'') (\<lambda>completed.
       if completed then completed_background status_data
       else ebind (status_is status_data ''FAILED'') (\<lambda>failed.
         if failed then Inr (Return None) else Inr Continue))"

definition poll_body_of :: "(json \<Rightarrow> py_error + poll_step) \<Rightarrow> http_result \<Rightarrow> poll_step" where
  "poll_body_of status_step r =
     (case r of
        HttpRaises \<Rightarrow> Continue
      | HttpJson status_data \<Rightarrow>
          (case status_step status_data of Inl e \<Rightarrow> Continue | Inr st \<Rightarrow> st))"

text \<open>The synchronous branch of \<^verbatim>\<open>_make_api_call\<close>.\<close>

definition sync_image_url :: "json \<Rightarrow> py_error + json option" where
  "sync_image_url data =
     ebind (py_in ''result'' data) (\<lambda>has_result.
       ebind (if has_result then ebind (py_getitem data ''result'') (\<lambda>r. Inr (Some r))
              else Inr None) (\<lambda>result.
         case result of
           Some (JList (x # xs)) \<Rightarrow> Inr (Some x)
         | Some (JObj kvs) \<Rightarrow> Inr (py_or (map_of kvs ''url'') (map_of kvs ''image_url''))
         | _ \<Rightarrow>
             ebind (py_in ''image_url'' data) (\<lambda>c3.
               if c3 then ebind (py_getitem data ''image_url'') (\<lambda>u. Inr (Some u))
               else ebind (py_in ''urls'' data) (\<lambda>c4.
                 if c4 then
                   ebind (py_getitem data ''urls'') (\<lambda>us.
                     ebind (py_index0 us) (\<lambda>u. Inr (Some u)))
                 else Inr None))))"

subsection \<open>Downloads\<close>

text \<open>
  \<^verbatim>\<open>tempfile.mkstemp(suffix, prefix)\<close> creates a file in the temporary directory under a
  name the system picks. Both download helpers fetch the URL, create the file and copy
  the body into it; whatever raises is logged and \<^verbatim>\<open>None\<close> is returned. Neither helper
  nor any other function of the plugin calls \<^verbatim>\<open>os.remove\<close> or \<^verbatim>\<open>os.unlink\<close>.
\<close>

definition mkstemp :: "world \<Rightarrow> string \<Rightarrow> string \<Rightarrow> string" where
  "mkstemp w suf pre = tempdir w @ ''/'' @ pre @ random_name w @ suf"

definition download_to :: "world \<Rightarrow> string \<Rightarrow> string \<Rightarrow> json \<Rightarrow> sys \<Rightarrow> string option \<times> sys" where
  "download_to w suf pre url s =
     (let s1 = emit (Download url) s
      in if \<not> download_ok w url then (None, s1)
         else if \<not> mkstemp_ok w then (None, s1)
         else let path = mkstemp w suf pre;
                  s2 = s1\<lparr>files := insert path (files s1)\<rparr>
              in if \<not> copy_ok w then (None, s2) else (Some path, s2))"

definition download_image :: "world \<Rightarrow> json \<Rightarrow> sys \<Rightarrow> string option \<times> sys" where
  "download_image w url s = download_to w ''.exr'' ''previz_bg_'' url s"

definition download_image_as_png :: "world \<Rightarrow> json \<Rightarrow> sys \<Rightarrow> string option \<times> sys" where
  "download_image_as_png w url s = download_to w ''.png'' ''previz_foreground_'' url s"

subsection \<open>Background image\<close>

text \<open>
  \<^verbatim>\<open>_make_api_call\<close>. The prompt is built before the \<^verbatim>\<open>try\<close>, so an exception there leaves
  the function; everything after is inside the \<^verbatim>\<open>try\<close>, whose handlers return \<^verbatim>\<open>None\<close>.
  The only \<^verbatim>\<open>return\<close> in the poll loop is \<^verbatim>\<open>return None\<close>.
\<close>

definition finish_image :: "world \<Rightarrow> json option \<Rightarrow> sys \<Rightarrow> (py_error + string option) \<times> sys" where
  "finish_image w image_url s =
     (case image_url of
        None \<Rightarrow> (Inr None, s)
      | Some u \<Rightarrow>
          if \<not> truthy u then (Inr None, s)
          else (case download_image w u s of (path, s') \<Rightarrow> (Inr path, s')))"

definition make_api_call ::
  "(json \<Rightarrow> string) \<Rightarrow> world \<Rightarrow> pydict \<Rightarrow> sys \<Rightarrow> (py_error + string option) \<times> sys" where
  "make_api_call py_str w scene_data s =
     (case build_prompt py_str scene_data of
        Inl e \<Rightarrow> (Inl e, s)
      | Inr final_prompt \<Rightarrow>
          (let s1 = emit (Post BRIA_IMAGE_ENDPOINT) s
           in case image_api w final_prompt of
                HttpRaises \<Rightarrow> (Inr None, s1)
              | HttpJson data \<Rightarrow>
                  (case py_in ''status_url'' data of
                     Inl e \<Rightarrow> (Inr None, s1)
                   | Inr True \<Rightarrow>
                       (case py_getitem data ''status_url'' of
                          Inl e \<Rightarrow> (Inr None, s1)
                        | Inr status_url \<Rightarrow>
                            (case poll_loop (poll_body_of status_step_background)
                                    (image_status w) status_url 60 0 s1 of
                               (Continue, s2) \<Rightarrow> (Inr None, s2)
                             | (Return r, s2) \<Rightarrow> (Inr None, s2)
                             | (Break image_url, s2) \<Rightarrow> finish_image w (Some image_url) s2))
                   | Inr False \<Rightarrow>
                       (case sync_image_url data of
                          Inl e \<Rightarrow> (Inr None, s1)
                        | Inr image_url \<Rightarrow> finish_image w image_url s1))))"


subsection \<open>Foreground element\<close>

text \<open>
  Python's \<^verbatim>\<open>None\<close> appears twice in the model: as \<^const>\<open>JNull\<close> inside a document and as
  the absent option where \<^verbatim>\<open>.get\<close> finds no key. Both are false in a condition.

  \<^verbatim>\<open>result.get("urls", [None])[0] if result.get("urls") else None\<close>
\<close>

definition first_of_urls :: "(string \<times> json) list \<Rightarrow> py_error + json option" where
  "first_of_urls kvs =
     (case map_of kvs ''urls'' of
        None \<Rightarrow> Inr None
      | Some us \<Rightarrow> if truthy us then ebind (py_index0 us) (\<lambda>u. Inr (Some u)) else Inr None)"

text \<open>\<^verbatim>\<open>d["result"]\<close> when \<^verbatim>\<open>"result" in d\<close>.\<close>

definition result_of :: "json \<Rightarrow> py_error + json option" where
  "result_of d =
     ebind (py_in ''result'' d) (\<lambda>has_result.
       if has_result then ebind (py_getitem d ''result'') (\<lambda>r. Inr (Some r)) else Inr None)"

text \<open>The body of the poll loop of \<^verbatim>\<open>_poll_for_image_result\<close>, on the decoded status.\<close>

definition completed_foreground :: "json \<Rightarrow> py_error + poll_step" where
  "completed_foreground status_data =
     ebind (result_of status_data) (\<lambda>result.
       case result of
         Some (JObj kvs) \<Rightarrow>
           if truthy_opt (map_of kvs ''image_url'') then Inr (Return (map_of kvs ''image_url''))
           else ebind (first_of_urls kvs) (\<lambda>u. Inr (Return u))
       | Some (JList (x # xs)) \<Rightarrow> Inr (Return (Some x))
       | _ \<Rightarrow> ebind (py_get status_data ''image_url'') (\<lambda>u. Inr (Return u)))"

definition status_step_foreground :: "json \<Rightarrow> py_error + poll_step" where
  "status_step_foreground status_data =
     ebind (status_is status_data ''COMPLETED'') (\<lambda>completed.
       if completed then completed_foreground status_data
       else ebind (status_is status_data ''FAILED'') (\<lambda>failed.
         if failed then Inr (Return None) else Inr Continue))"

definition sync_foreground_url :: "json \<Rightarrow> py_error + json option" where
  "sync_foreground_url data =
     ebind (result_of data) (\<lambda>result.
       case result of
         Some (JObj kvs) \<Rightarrow> Inr (py_or (map_of kvs ''url'') (map_of kvs ''image_url''))
       | Some (JList (x # xs)) \<Rightarrow> Inr (Some x)
       | _ \<Rightarrow>
           ebind (py_get data ''image_url'') (\<lambda>a.
             if truthy_opt a then Inr a
             else ebind (py_get data ''urls'') (\<lambda>us.
               case us of
                 None \<Rightarrow> Inr None
               | Some u \<Rightarrow>
                   if truthy u then ebind (py_index0 u) (\<lambda>x. Inr (Some x)) else Inr None)))"

text \<open>
  \<^verbatim>\<open>_poll_for_image_result\<close> has no handler of its own outside the loop: an exception of
  the membership test or of the synchronous lookups leaves the function. Its loop body
  never breaks.
\<close>

definition poll_for_image_result :: "world \<Rightarrow> json \<Rightarrow> sys \<Rightarrow> (py_error + json option) \<times> sys" where
  "poll_for_image_result w data s =
     (case py_in ''status_url'' data of
        Inl e \<Rightarrow> (Inl e, s)
      | Inr True \<Rightarrow>
          (case py_getitem data ''status_url'' of
             Inl e \<Rightarrow> (Inl e, s)
           | Inr status_url \<Rightarrow>
               (case poll_loop (poll_body_of status_step_foreground)
                       (image_status w) status_url 60 0 s of
                  (Continue, s') \<Rightarrow> (Inr None, s')
                | (Return r, s') \<Rightarrow> (Inr r, s')
                | (Break u, s') \<Rightarrow> (Inr None, s')))
      | Inr False \<Rightarrow> (sync_foreground_url data, s))"

text \<open>
  The lookups of \<^verbatim>\<open>_remove_background\<close>, the same for a completed status and for a
  synchronous reply: \<^verbatim>\<open>result = d.get("result", {})\<close>, then the two keys of \<open>result\<close> when
  it is a dictionary, of \<open>d\<close> otherwise.
\<close>

definition rmbg_url :: "json \<Rightarrow> py_error + json option" where
  "rmbg_url d =
     ebind (py_get d ''result'') (\<lambda>result.
       case result of
         None \<Rightarrow> Inr None
       | Some (JObj kvs) \<Rightarrow> Inr (py_or (map_of kvs ''image_url'') (map_of kvs ''result_url''))
       | Some v \<Rightarrow>
           ebind (py_get d ''image_url'') (\<lambda>a.
             if truthy_opt a then Inr a else py_get d ''result_url''))"

definition status_step_rmbg :: "json \<Rightarrow> py_error + poll_step" where
  "status_step_rmbg status_data =
     ebind (status_is status_data ''COMPLETED'') (\<lambda>completed.
       if completed then ebind (rmbg_url status_data) (\<lambda>u. Inr (Return u))
       else ebind (status_is status_data ''FAILED'') (\<lambda>failed.
         if failed then Inr (Return None) else Inr Continue))"

text \<open>
  \<^verbatim>\<open>_remove_background\<close> slices \<^verbatim>\<open>image_url[:50]\<close> for its log line before the \<^verbatim>\<open>try\<close>;
  a string or a list can be sliced. Everything after is inside the \<^verbatim>\<open>try\<close>.
\<close>

definition remove_background :: "world \<Rightarrow> json \<Rightarrow> sys \<Rightarrow> (py_error + json option) \<times> sys" where
  "remove_background w image_url s =
     (if \<not> (is_str image_url \<or> is_list image_url) then (Inl TypeError, s)
      else
        (let s1 = emit (Post BRIA_RMBG_ENDPOINT) s
         in case rmbg_api w image_url of
              HttpRaises \<Rightarrow> (Inr None, s1)
            | HttpJson data \<Rightarrow>
                (case py_in ''status_url'' data of
                   Inl e \<Rightarrow> (Inr None, s1)
                 | Inr True \<Rightarrow>
                     (case py_getitem data ''status_url'' of
                        Inl e \<Rightarrow> (Inr None, s1)
                      | Inr status_url \<Rightarrow>
                          (case poll_loop (poll_body_of status_step_rmbg)
                                  (rmbg_status w) status_url 30 0 s1 of
                             (Continue, s2) \<Rightarrow> (Inr None, s2)
                           | (Return r, s2) \<Rightarrow> (Inr r, s2)
                           | (Break u, s2) \<Rightarrow> (Inr None, s2)))
                 | Inr False \<Rightarrow>
                     (case rmbg_url data of
                        Inl e \<Rightarrow> (Inr None, s1)
                      | Inr r \<Rightarrow> (Inr r, s1)))))"

text \<open>
  \<^verbatim>\<open>_generate_foreground_sync\<close>: its handler logs and raises again, so every exception
  leaves the function.
\<close>

definition foreground_prompt :: "string \<Rightarrow> string" where
  "foreground_prompt description =
     description
     @ '', isolated on pure white background, product photography style, high quality''"

definition generate_foreground_sync ::
  "world \<Rightarrow> string \<Rightarrow> sys \<Rightarrow> (py_error + string option) \<times> sys" where
  "generate_foreground_sync w description s =
     (let s1 = emit (Post BRIA_IMAGE_ENDPOINT) s
      in case image_api w (foreground_prompt description) of
           HttpRaises \<Rightarrow> (Inl RequestException, s1)
         | HttpJson data \<Rightarrow>
             (case poll_for_image_result w data s1 of
                (Inl e, s2) \<Rightarrow> (Inl e, s2)
              | (Inr None, s2) \<Rightarrow> (Inl (PlainException ''Failed to generate base image''), s2)
              | (Inr (Some image_url), s2) \<Rightarrow>
                  if \<not> truthy image_url
                    then (Inl (PlainException ''Failed to generate base image''), s2)
                  else
                    (case remove_background w image_url s2 of
                       (Inl e, s3) \<Rightarrow> (Inl e, s3)
                     | (Inr None, s3) \<Rightarrow>
                         (Inl (PlainException ''Failed to remove background''), s3)
                     | (Inr (Some transparent_url), s3) \<Rightarrow>
                         if \<not> truthy transparent_url
                           then (Inl (PlainException ''Failed to remove background''), s3)
                         else
                           (case download_image_as_png w transparent_url s3 of
                              (path, s4) \<Rightarrow> (Inr path, s4)))))"

subsection \<open>Worker threads and their callbacks\<close>

text \<open>
  \<^verbatim>\<open>generate_background_image\<close> and \<^verbatim>\<open>generate_foreground_element\<close> create a
  \<^verbatim>\<open>threading.Thread\<close>, set \<^verbatim>\<open>daemon = True\<close> and start it; they do nothing else. The thread
  is a value here: its flag and what it will run. The callbacks are the closures the
  operators pass: \<^verbatim>\<open>image_ready_callback\<close> of Generate Scene and of Refine Scene, and
  \<^verbatim>\<open>on_complete\<close> of Add Foreground Element. Running a thread against a world gives the
  events of the worker, in its own thread.
\<close>

datatype callback = GenerateCallback | RefineCallback

datatype worker = BackgroundWorker pydict "callback option" | ForegroundWorker string

record thread =
  daemon :: bool
  target :: worker

definition generate_background_image :: "pydict \<Rightarrow> callback option \<Rightarrow> thread" where
  "generate_background_image scene_data cb =
     \<lparr>daemon = True, target = BackgroundWorker scene_data cb\<rparr>"

definition generate_foreground_element :: "string \<Rightarrow> thread" where
  "generate_foreground_element description =
     \<lparr>daemon = True, target = ForegroundWorker description\<rparr>"

definition status_failed :: string where
  "status_failed = [CHR 0xE2, CHR 0x9D, CHR 0x8C] @ '' Generation failed''"

definition status_generating :: string where
  "status_generating = [CHR 0xE2, CHR 0x8F, CHR 0xB3] @ '' Generating background...''"

definition status_loading :: string where
  "status_loading = [CHR 0xE2, CHR 0x8F, CHR 0xB3] @ '' Loading image...''"

definition status_ready :: string where
  "status_ready = [CHR 0xE2, CHR 0x9C, CHR 0x85] @ '' Ready''"

text \<open>
  \<^verbatim>\<open>image_ready_callback(path)\<close>: with a path the scene update is handed to
  \<^verbatim>\<open>bpy.app.timers.register\<close>; without one Generate Scene assigns the status text and
  Refine Scene only prints.
\<close>

definition image_ready_callback :: "callback \<Rightarrow> string option \<Rightarrow> sys \<Rightarrow> sys" where
  "image_ready_callback cb path s =
     (case cb of
        GenerateCallback \<Rightarrow>
          (case path of
             None \<Rightarrow> emit (SetStatus status_failed) s
           | Some p \<Rightarrow>
               if p \<noteq> [] then emit (RegisterTimer (UpdateScene p)) s
               else emit (SetStatus status_failed) s)
      | RefineCallback \<Rightarrow>
          (case path of
             None \<Rightarrow> s
           | Some p \<Rightarrow> if p \<noteq> [] then emit (RegisterTimer (UpdateSceneRefined p)) s else s))"

text \<open>
  \<^verbatim>\<open>on_complete(image_path, error)\<close>: an error is printed; a path is handed to a timer;
  neither only prints.
\<close>

definition on_complete :: "string option \<Rightarrow> string option \<Rightarrow> sys \<Rightarrow> sys" where
  "on_complete image_path err s =
     (if (case err of None \<Rightarrow> False | Some e \<Rightarrow> e \<noteq> []) then s
      else case image_path of
             None \<Rightarrow> s
           | Some p \<Rightarrow> if p \<noteq> [] then emit (RegisterTimer (ImportCard p)) s else s)"

text \<open>
  \<^verbatim>\<open>_run_async\<close> of either kind. The background worker has no handler: when
  \<^verbatim>\<open>_make_api_call\<close> raises the thread ends and the callback is not called. The
  foreground worker calls back with \<^verbatim>\<open>(None, str(e))\<close>; \<^verbatim>\<open>str\<close> of an exception is a
  parameter. The result tells whether the thread ended by an exception.
\<close>

definition run_async ::
  "(json \<Rightarrow> string) \<Rightarrow> (py_error \<Rightarrow> string) \<Rightarrow> world \<Rightarrow> worker \<Rightarrow> sys
     \<Rightarrow> py_error option \<times> sys" where
  "run_async py_str err_str w job s =
     (case job of
        BackgroundWorker scene_data cb \<Rightarrow>
          (case make_api_call py_str w scene_data s of
             (Inl e, s') \<Rightarrow> (Some e, s')
           | (Inr image_path, s') \<Rightarrow>
               (case cb of
                  None \<Rightarrow> (None, s')
                | Some c \<Rightarrow> (None, image_ready_callback c image_path s')))
      | ForegroundWorker description \<Rightarrow>
          (case generate_foreground_sync w description s of
             (Inl e, s') \<Rightarrow> (None, on_complete None (Some (err_str e)) s')
           | (Inr result_path, s') \<Rightarrow> (None, on_complete result_path None s')))"

text \<open>
  The timer functions \<^verbatim>\<open>update_scene\<close> and \<^verbatim>\<open>import_card\<close>, run by the host's main loop.
  They load the image at the path into the host (\<^verbatim>\<open>bpy.data.images.load\<close>, which reads
  the file), change the scene and return \<^verbatim>\<open>None\<close>; the host keeps a timer only when its
  function returns a number of seconds. The scene graph itself is outside the model.
\<close>

definition run_timer :: "timer_fn \<Rightarrow> sys \<Rightarrow> real option \<times> sys" where
  "run_timer f s =
     (case f of
        UpdateScene path \<Rightarrow> (None, emit (SetStatus status_ready) (emit (SetStatus status_loading) s))
      | UpdateSceneRefined path \<Rightarrow> (None, s)
      | ImportCard path \<Rightarrow> (None, s))"


section \<open>director.py\<close>

text \<open>
  The director assigns properties of host objects. Of \<^verbatim>\<open>apply_camera_settings\<close> and
  \<^verbatim>\<open>apply_lighting_settings\<close> the model keeps when they raise: \<^verbatim>\<open>.lower()\<close> is called on
  what \<^verbatim>\<open>.get\<close> returns, which must be a string, \<^verbatim>\<open>lighting.get\<close> needs a dictionary, and a
  host call may fail (\<open>host_ok\<close>). Neither function changes the dictionary it is given.
\<close>

definition apply_camera_settings :: "bool \<Rightarrow> pydict \<Rightarrow> py_error + unit" where
  "apply_camera_settings host_ok json_data =
     (if \<not> host_ok then Inl RuntimeError
      else if \<not> is_str (dget_default json_data ''field_of_view'' (JStr ''normal''))
        then Inl AttributeError
      else if \<not> is_str (dget_default json_data ''camera_angle'' (JStr ''eye level''))
        then Inl AttributeError
      else Inr ())"

definition apply_lighting_settings :: "bool \<Rightarrow> pydict \<Rightarrow> py_error + unit" where
  "apply_lighting_settings host_ok json_data =
     (if \<not> host_ok then Inl RuntimeError
      else
        (let lighting = (case dget json_data ''lighting'' of
                           None \<Rightarrow> JObj []
                         | Some (JStr l) \<Rightarrow>
                             JObj [(''direction'', JStr l), (''quality'', JStr ''soft'')]
                         | Some v \<Rightarrow> v)
         in case lighting of
              JObj l \<Rightarrow>
                if \<not> is_str (case map_of l ''direction'' of
                                 None \<Rightarrow> JStr ''natural'' | Some v \<Rightarrow> v)
                  then Inl AttributeError
                else if \<not> is_str (case map_of l ''quality'' of
                                      None \<Rightarrow> JStr ''soft'' | Some v \<Rightarrow> v)
                  then Inl AttributeError
                else Inr ()
            | _ \<Rightarrow> Inl AttributeError))"

section \<open>The operators of the panel\<close>

text \<open>
  The state the operators work on: the module-level \<^verbatim>\<open>_last_scene_data\<close>, the scene
  properties the plugin registers, the content of the chosen text block (absent when no
  block is chosen) and the \<^verbatim>\<open>filepath\<close> property of the export operator. An operator
  returns its result set, the new state and the threads it started.
\<close>

record plugin =
  last_scene_data :: pydict
  custom_script_text :: "string option"
  previz_refine_text :: string
  previz_foreground_text :: string
  previz_status :: string
  export_path :: string

datatype op_result = FINISHED | CANCELLED | RUNNING_MODAL | Raises py_error

record ui_env =
  scene_api :: "string \<Rightarrow> http_result"
  json_dumps :: "pydict \<Rightarrow> string"
  json_loads :: "string \<Rightarrow> json option"
  unicode_lower :: case_table
  host_ok :: bool

definition initial_plugin :: plugin where
  "initial_plugin =
     \<lparr>last_scene_data = [], custom_script_text = None, previz_refine_text = [],
      previz_foreground_text = [], previz_status = ''Ready'',
      export_path = ''previz_export.json''\<rparr>"

definition paste_script_execute :: "string \<Rightarrow> plugin \<Rightarrow> op_result \<times> plugin \<times> thread list" where
  "paste_script_execute clipboard st =
     (if clipboard = [] then (CANCELLED, st, [])
      else (FINISHED, st\<lparr>custom_script_text := Some clipboard\<rparr>, []))"

definition generate_scene_execute :: "ui_env \<Rightarrow> plugin \<Rightarrow> op_result \<times> plugin \<times> thread list" where
  "generate_scene_execute env st =
     (case custom_script_text st of
        None \<Rightarrow> (CANCELLED, st, [])
      | Some script_content \<Rightarrow>
          if strip_empty script_content then (CANCELLED, st, [])
          else
            (let scene_data =
                   get_scene_parameters (scene_api env) (json_loads env) script_content;
                 st1 = st\<lparr>last_scene_data := scene_data\<rparr>
             in case ebind (apply_camera_settings (host_ok env) scene_data)
                       (\<lambda>u. apply_lighting_settings (host_ok env) scene_data) of
                  Inl e \<Rightarrow> (Raises e, st1, [])
                | Inr u \<Rightarrow>
                    (FINISHED, st1\<lparr>previz_status := status_generating\<rparr>,
                     [generate_background_image scene_data (Some GenerateCallback)])))"

definition refine_scene_execute :: "ui_env \<Rightarrow> plugin \<Rightarrow> op_result \<times> plugin \<times> thread list" where
  "refine_scene_execute env st =
     (if last_scene_data st = [] then (CANCELLED, st, [])
      else if strip_empty (previz_refine_text st) then (CANCELLED, st, [])
      else
        (let refined_data =
               refine_scene_parameters (unicode_lower env) (scene_api env) (json_dumps env)
                 (json_loads env) (last_scene_data st) (previz_refine_text st);
             st1 = st\<lparr>last_scene_data := refined_data\<rparr>
         in case ebind (apply_camera_settings (host_ok env) refined_data)
                   (\<lambda>u. apply_lighting_settings (host_ok env) refined_data) of
              Inl e \<Rightarrow> (Raises e, st1, [])
            | Inr u \<Rightarrow>
                (FINISHED, st1\<lparr>previz_refine_text := []\<rparr>,
                 [generate_background_image refined_data (Some RefineCallback)])))"

definition add_foreground_execute :: "plugin \<Rightarrow> op_result \<times> plugin \<times> thread list" where
  "add_foreground_execute st =
     (let description = strip (previz_foreground_text st)
      in if description = [] then (CANCELLED, st, [])
         else (FINISHED, st\<lparr>previz_foreground_text := []\<rparr>,
               [generate_foreground_element description]))"

text \<open>
  Export to Set: \<^verbatim>\<open>invoke\<close> proposes a file name with a time stamp. \<^verbatim>\<open>execute\<close> first
  collects the camera and sun data from the host, outside any \<^verbatim>\<open>try\<close>: an exception
  there (a camera object without lens data, \<^verbatim>\<open>math.sin\<close> of an infinite rotation) leaves
  the operator. Then it makes the path end in \<^verbatim>\<open>.json\<close>, opens it for writing and dumps
  the data. \<^verbatim>\<open>open\<close> creates the file; an exception of either step is reported and the
  operator is cancelled. How the host and the file system answer is a parameter.
\<close>

datatype write_outcome = DataRaises py_error | OpenFails | DumpFails | Written

definition export_to_set_invoke :: "string \<Rightarrow> plugin \<Rightarrow> op_result \<times> plugin \<times> thread list" where
  "export_to_set_invoke timestamp st =
     (RUNNING_MODAL, st\<lparr>export_path := ''previz_set_data_'' @ timestamp @ ''.json''\<rparr>, [])"

definition export_to_set_execute ::
  "case_table \<Rightarrow> write_outcome \<Rightarrow> plugin \<Rightarrow> sys
     \<Rightarrow> (op_result \<times> plugin \<times> thread list) \<times> sys" where
  "export_to_set_execute tbl outcome st s =
     (let filepath = export_filepath tbl (export_path st)
      in case outcome of
           DataRaises e \<Rightarrow> ((Raises e, st, []), s)
         | OpenFails \<Rightarrow> ((CANCELLED, st, []), s)
         | DumpFails \<Rightarrow> ((CANCELLED, st, []), s\<lparr>files := insert filepath (files s)\<rparr>)
         | Written \<Rightarrow> ((FINISHED, st, []), s\<lparr>files := insert filepath (files s)\<rparr>))"

text \<open>What an event of a worker or of a timer function does to the state of the panel.\<close>

definition apply_event :: "event \<Rightarrow> plugin \<Rightarrow> plugin" where
  "apply_event e st = (case e of SetStatus t \<Rightarrow> st\<lparr>previz_status := t\<rparr> | _ \<Rightarrow> st)"

section \<open>Reading a trace\<close>

text \<open>
  The sleeps (in seconds), the status polls, the posts and the registered timer functions
  among the events, each in order; and whether a poll reply carries a given status.
\<close>

definition sleeps :: "event list \<Rightarrow> nat list" where
  "sleeps t = concat (map (\<lambda>e. case e of Sleep d \<Rightarrow> [d] | _ \<Rightarrow> []) t)"

definition polls :: "event list \<Rightarrow> json list" where
  "polls t = concat (map (\<lambda>e. case e of GetStatus u \<Rightarrow> [u] | _ \<Rightarrow> []) t)"

definition posts :: "event list \<Rightarrow> string list" where
  "posts t = concat (map (\<lambda>e. case e of Post u \<Rightarrow> [u] | _ \<Rightarrow> []) t)"

definition timers :: "event list \<Rightarrow> timer_fn list" where
  "timers t = concat (map (\<lambda>e. case e of RegisterTimer f \<Rightarrow> [f] | _ \<Rightarrow> []) t)"

definition has_status :: "http_result \<Rightarrow> string \<Rightarrow> bool" where
  "has_status r st =
     (case r of HttpRaises \<Rightarrow> False | HttpJson status_data \<Rightarrow> status_is status_data st = Inr True)"

definition download_result :: "world \<Rightarrow> string \<Rightarrow> string \<Rightarrow> json \<Rightarrow> string option" where
  "download_result w suf pre url =
     (if download_ok w url \<and> mkstemp_ok w \<and> copy_ok w then Some (mkstemp w suf pre) else None)"

text \<open>
  A stretch of a trace holds at most \<open>n\<close> rounds of polling when it adds \<open>k \<le> n\<close>
  sleeps, each of one second, and as many polls.
\<close>

definition bounded_polls :: "nat \<Rightarrow> event list \<Rightarrow> event list \<Rightarrow> bool" where
  "bounded_polls n before after =
     (\<exists>k\<le>n. sleeps after = sleeps before @ replicate k 1
            \<and> length (polls after) = length (polls before) + k)"

section \<open>The lookups in the words of the specification\<close>

text \<open>
  The specification describes the handling of a completed status as the first applicable
  of \<^verbatim>\<open>result.image_url\<close>, \<^verbatim>\<open>result.urls[0]\<close> and the top-level \<^verbatim>\<open>image_url\<close>, with
  \<^verbatim>\<open>None\<close> when none is present, a failed status as \<^verbatim>\<open>None\<close> at once, and any other
  status as another round. These definitions follow those words, for comparison with
  the body of the loop as the source has it: a path is applicable when every step of it
  exists.
\<close>

fun field :: "json \<Rightarrow> string \<Rightarrow> json option" where
  "field (JObj kvs) k = map_of kvs k"
| "field v k = None"

fun first_item :: "json \<Rightarrow> json option" where
  "first_item (JList (x # xs)) = Some x"
| "first_item (JStr s) = (case chars_of s of [] \<Rightarrow> None | u # us \<Rightarrow> Some (JStr u))"
| "first_item v = None"

definition spec_image_url :: "json \<Rightarrow> json option" where
  "spec_image_url status_data =
     (case Option.bind (field status_data ''result'') (\<lambda>r. field r ''image_url'') of
        Some u \<Rightarrow> Some u
      | None \<Rightarrow>
          (case Option.bind (field status_data ''result'')
                  (\<lambda>r. Option.bind (field r ''urls'') first_item) of
             Some u \<Rightarrow> Some u
           | None \<Rightarrow> field status_data ''image_url''))"

definition spec_poll_body :: "http_result \<Rightarrow> poll_step" where
  "spec_poll_body r =
     (case r of
        HttpRaises \<Rightarrow> Continue
      | HttpJson status_data \<Rightarrow>
          if field status_data ''status'' = Some (JStr ''COMPLETED'')
            then (case spec_image_url status_data of
                    None \<Rightarrow> Return None
                  | Some u \<Rightarrow> Break u)
          else if field status_data ''status'' = Some (JStr ''FAILED'') then Return None
          else Continue)"

section \<open>Examples used by the instances\<close>

text \<open>
  A stand-in for \<^verbatim>\<open>json.loads\<close> that decodes the few strings the instances below use
  and rejects every other.
\<close>

definition sample_loads :: "string \<Rightarrow> json option" where
  "sample_loads s =
     (if s = ''{}'' then Some (JObj [])
      else if s = ''[[1, 2]]'' then Some (JList [JList [JInt 1, JInt 2]])
      else None)"

definition sample_reply :: json where
  "sample_reply = JObj [(''result'', JObj [(''structured_prompt'', JStr ''[[1, 2]]'')])]"

text \<open>A case table that leaves every code point beyond ASCII as it is.\<close>

definition plain_table :: case_table where
  "plain_table before u after = u"

text \<open>A panel whose service is down, with a script chosen.\<close>

definition sample_env :: ui_env where
  "sample_env =
     \<lparr>scene_api = (\<lambda>p. HttpRaises), json_dumps = (\<lambda>d. ''{}''),
      json_loads = sample_loads, unicode_lower = plain_table, host_ok = True\<rparr>"

definition sample_plugin :: plugin where
  "sample_plugin = initial_plugin\<lparr>custom_script_text := Some ''INT. WAREHOUSE - NIGHT''\<rparr>"

text \<open>
  Worlds for the image client. In both the service answers the post with a status URL
  and every download succeeds. In the first the job is pending for two polls and then
  completed with a list of URLs; in the second the first poll reports a completed job
  whose \<^verbatim>\<open>result\<close> is \<^verbatim>\<open>null\<close> and the next one a completed job with a top-level URL.
\<close>

definition empty_sys :: sys where
  "empty_sys = \<lparr>files = {}, events = []\<rparr>"

definition async_reply :: json where
  "async_reply =
     JObj [(''status_url'', JStr ''https://engine.prod.bria-api.com/v2/status/42'')]"

definition null_result_world :: world where
  "null_result_world =
     \<lparr>image_api = (\<lambda>p. HttpJson async_reply),
      image_status =
        (\<lambda>i. if i = 0
              then HttpJson (JObj [(''status'', JStr ''COMPLETED''), (''result'', JNull)])
              else HttpJson (JObj [(''status'', JStr ''COMPLETED''),
                                   (''image_url'', JStr ''https://cdn.example/42.exr'')])),
      rmbg_api = (\<lambda>u. HttpRaises),
      rmbg_status = (\<lambda>i. HttpRaises),
      download_ok = (\<lambda>u. True),
      mkstemp_ok = True,
      tempdir = ''/tmp'',
      random_name = ''k3x9'',
      copy_ok = True\<rparr>"

definition pending_world :: world where
  "pending_world =
     \<lparr>image_api = (\<lambda>p. HttpJson async_reply),
      image_status =
        (\<lambda>i. if i < 2
              then HttpJson (JObj [(''status'', JStr ''PENDING'')])
              else HttpJson (JObj [(''status'', JStr ''COMPLETED''),
                                   (''result'',
                                    JObj [(''urls'', JList [JStr ''https://cdn.example/42.exr''])])])),
      rmbg_api = (\<lambda>u. HttpRaises),
      rmbg_status = (\<lambda>i. HttpRaises),
      download_ok = (\<lambda>u. True),
      mkstemp_ok = True,
      tempdir = ''/tmp'',
      random_name = ''k3x9'',
      copy_ok = True\<rparr>"

text \<open>
  A world whose image job stays pending and whose background removal is never
  answered, and a world without a service.
\<close>

definition stalled_world :: world where
  "stalled_world =
     \<lparr>image_api = (\<lambda>p. HttpJson async_reply),
      image_status = (\<lambda>i. HttpJson (JObj [(''status'', JStr ''PENDING'')])),
      rmbg_api = (\<lambda>u. HttpJson async_reply),
      rmbg_status = (\<lambda>i. HttpRaises),
      download_ok = (\<lambda>u. True),
      mkstemp_ok = True,
      tempdir = ''/tmp'',
      random_name = ''k3x9'',
      copy_ok = True\<rparr>"



text \<open>
  A panel whose service answers a script with a structured prompt that sets
  \<^verbatim>\<open>field_of_view\<close> to the number 35.
\<close>

definition numeric_fov_text :: string where
  "numeric_fov_text = ''{'' @ [CHR 0x22] @ ''field_of_view'' @ [CHR 0x22] @ '': 35}''"

definition numeric_fov_env :: ui_env where
  "numeric_fov_env =
     \<lparr>scene_api =
        (\<lambda>p. HttpJson (JObj [(''result'', JObj [(''structured_prompt'', JStr numeric_fov_text)])])),
      json_dumps = (\<lambda>d. ''{}''),
      json_loads =
        (\<lambda>s. if s = numeric_fov_text then Some (JObj [(''field_of_view'', JInt 35)]) else None),
      unicode_lower = plain_table, host_ok = True\<rparr>"

section \<open>Properties\<close>

subsection \<open>Dictionaries keep their keys\<close>

lemma ebind_simps [simp]:
  "ebind (Inl e) f = Inl e"
  "ebind (Inr v) f = f v"
  by (simp_all add: ebind_def)

lemma keys_DEFAULT_PARAMETERS:
  "keys DEFAULT_PARAMETERS =
     {KStr ''camera_angle'', KStr ''lighting'', KStr ''composition'', KStr ''field_of_view''}"
  by (auto simp: keys_def DEFAULT_PARAMETERS_def)

lemma keys_update: "keys (AList.update k v d) = insert k (keys d)"
  by (auto simp: keys_def dom_update)

lemma keys_dset: "keys (dset d k v) = insert (KStr k) (keys d)"
  by (simp add: dset_def keys_update)

lemma keys_update_items: "keys d \<subseteq> keys (update_items d kvs)"
  by (induction d kvs rule: update_items.induct) (auto simp: keys_update)

lemma keys_update_pairs: "update_pairs d xs = Inr d' \<Longrightarrow> keys d \<subseteq> keys d'"
proof (induction xs arbitrary: d)
  case Nil
  then show ?case by simp
next
  case (Cons x xs)
  then show ?case
    by (cases "pair_of x") (auto simp: keys_update split: prod.splits dest!: Cons.IH)
qed

lemma keys_dict_update: "dict_update d v = Inr d' \<Longrightarrow> keys d \<subseteq> keys d'"
  using keys_update_items[of d] keys_update_pairs[of d]
  by (cases v) (auto split: if_splits)

lemma keys_set_lighting: "keys d \<subseteq> keys (set_lighting d k v)"
  by (auto simp: set_lighting_def keys_dset split: option.splits json.splits)

lemma keys_warm_lighting: "keys d \<subseteq> keys (warm_lighting d)"
  by (auto simp: warm_lighting_def keys_dset Let_def split: option.splits json.splits)

lemma keys_fallback_refinement: "keys d \<subseteq> keys (fallback_refinement tbl d r)"
proof -
  have t: "keys x \<subseteq> keys (refine_temperature q x)" for q x
    using keys_set_lighting keys_warm_lighting by (auto simp: refine_temperature_def)
  have i: "keys x \<subseteq> keys (refine_intensity q x)" for q x
    using keys_set_lighting by (auto simp: refine_intensity_def)
  have c: "keys x \<subseteq> keys (refine_camera_angle q x)" for q x
    by (auto simp: refine_camera_angle_def keys_dset)
  have f: "keys x \<subseteq> keys (refine_field_of_view q x)" for q x
    by (auto simp: refine_field_of_view_def keys_dset)
  have s: "keys x \<subseteq> keys (refine_quality q x)" for q x
    using keys_set_lighting by (auto simp: refine_quality_def)
  show ?thesis
    unfolding fallback_refinement_def Let_def
    by (meson t i c f s subset_trans)
qed

lemma keys_refined_parameters_of:
  "refined_parameters_of tbl jl d r data = Inr d' \<Longrightarrow> keys d \<subseteq> keys d'"
  unfolding refined_parameters_of_def
  using keys_fallback_refinement[of d tbl r]
  by (cases "structured_prompt_of data")
     (auto split: option.splits sum.splits py_error.splits dest: keys_dict_update)

lemma scene_parameters_of_cases:
  "scene_parameters_of jl data = Inr d \<Longrightarrow>
     d = DEFAULT_PARAMETERS \<or> (\<exists>params. dict_update DEFAULT_PARAMETERS params = Inr d)"
  unfolding scene_parameters_of_def
  by (cases "structured_prompt_of data")
     (auto split: option.splits sum.splits py_error.splits)

subsection \<open>Code points\<close>

lemma concat_chars_of [simp]: "concat (chars_of s) = s"
  by (induction s) (auto split: list.splits)

lemma chars_of_append:
  "t = [] \<or> \<not> is_cont (hd t) \<Longrightarrow> chars_of (s @ t) = chars_of s @ chars_of t"
proof (induction s)
  case Nil
  then show ?case by simp
next
  case (Cons c cs)
  show ?case
  proof (cases cs)
    case Nil
    with Cons.prems show ?thesis
      by (cases t) (auto split: list.splits)
  next
    case (Cons d ds)
    with Cons.IH Cons.prems show ?thesis
      by (auto split: list.splits)
  qed
qed

text \<open>The lowering of the last code points does not depend on the ones before them.\<close>

lemma lower_points_append:
  "suffix (lower_points tbl (b @ us) vs) (lower_points tbl b (us @ vs))"
proof (induction us arbitrary: b)
  case Nil
  then show ?case by simp
next
  case (Cons a us)
  from Cons[of "b @ [a]"] show ?case by (simp add: suffix_appendI)
qed

lemma lower_json: "lower_points tbl b (chars_of ''.json'') = ''.json''"
  by (simp add: lower_point_def lower_char_def)

lemma lower_append_json: "endswith (lower tbl (fp @ ''.json'')) ''.json''"
proof -
  have "chars_of (fp @ ''.json'') = chars_of fp @ chars_of ''.json''"
    by (rule chars_of_append) simp
  then show ?thesis
    using lower_json[of tbl "chars_of fp"]
      lower_points_append[of tbl "[]" "chars_of fp" "chars_of ''.json''"]
    by (simp add: lower_def endswith_def del: chars_of.simps)
qed

subsection \<open>Traces and the poll loop\<close>

lemma trace_append [simp]:
  "sleeps (a @ b) = sleeps a @ sleeps b"
  "polls (a @ b) = polls a @ polls b"
  "posts (a @ b) = posts a @ posts b"
  "timers (a @ b) = timers a @ timers b"
  by (simp_all add: sleeps_def polls_def posts_def timers_def)

lemma trace_single [simp]:
  "sleeps [e] = (case e of Sleep d \<Rightarrow> [d] | _ \<Rightarrow> [])"
  "polls [e] = (case e of GetStatus u \<Rightarrow> [u] | _ \<Rightarrow> [])"
  "posts [e] = (case e of Post u \<Rightarrow> [u] | _ \<Rightarrow> [])"
  "timers [e] = (case e of RegisterTimer f \<Rightarrow> [f] | _ \<Rightarrow> [])"
  by (simp_all add: sleeps_def polls_def posts_def timers_def)

lemma emit_simps [simp]:
  "events (emit e s) = events s @ [e]"
  "files (emit e s) = files s"
  by (simp_all add: emit_def)

text \<open>The events of a poll loop: k rounds of sleep and poll.\<close>

lemma poll_loop_events:
  "poll_loop body status u n i s = (r, s') \<Longrightarrow>
     \<exists>k\<le>n. events s' = events s @ concat (replicate k [Sleep 1, GetStatus u])
            \<and> (r = Continue \<longrightarrow> k = n)"
proof (induction n arbitrary: i s)
  case 0
  then show ?case by auto
next
  case (Suc n)
  let ?s1 = "emit (GetStatus u) (emit (Sleep 1) s)"
  show ?case
  proof (cases "body (status i)")
    case Continue
    with Suc.prems have "poll_loop body status u n (Suc i) ?s1 = (r, s')"
      by (simp add: Let_def)
    from Suc.IH[OF this] obtain k where k: "k \<le> n"
      "events s' = events ?s1 @ concat (replicate k [Sleep 1, GetStatus u])"
      "r = Continue \<longrightarrow> k = n" by blast
    have "events s' = events s @ concat (replicate (Suc k) [Sleep 1, GetStatus u])"
      using k(2) by simp
    with k(1,3) show ?thesis
      by (intro exI[of _ "Suc k"]) auto
  next
    case (Break x)
    with Suc.prems have "r = Break x" "s' = ?s1" by (auto simp: Let_def)
    then show ?thesis by (intro exI[of _ 1]) auto
  next
    case (Return x)
    with Suc.prems have "r = Return x" "s' = ?s1" by (auto simp: Let_def)
    then show ?thesis by (intro exI[of _ 1]) auto
  qed
qed

lemma poll_loop_files: "files (snd (poll_loop body status u n i s)) = files s"
  by (induction n arbitrary: i s) (auto simp: Let_def split: poll_step.splits)

lemma poll_loop_decided:
  "j < n \<Longrightarrow> \<forall>m<j. body (status (i + m)) = Continue \<Longrightarrow>
     body (status (i + j)) \<noteq> Continue \<Longrightarrow>
     fst (poll_loop body status u n i s) = body (status (i + j))"
proof (induction n arbitrary: i j s)
  case 0
  then show ?case by simp
next
  case (Suc n)
  show ?case
  proof (cases j)
    case 0
    with Suc.prems show ?thesis by (auto simp: Let_def split: poll_step.splits)
  next
    case (Suc j')
    with Suc.prems have c: "body (status i) = Continue" by force
    have "fst (poll_loop body status u n (Suc i) (emit (GetStatus u) (emit (Sleep 1) s)))
            = body (status (Suc i + j'))"
      using Suc.prems Suc by (intro Suc.IH) auto
    with c Suc show ?thesis by (simp add: Let_def)
  qed
qed

lemma poll_loop_exhausted:
  "\<forall>m<n. body (status (i + m)) = Continue \<Longrightarrow>
     fst (poll_loop body status u n i s) = Continue"
proof (induction n arbitrary: i s)
  case 0
  then show ?case by simp
next
  case (Suc n)
  from Suc.prems have c: "body (status i) = Continue" by force
  have "fst (poll_loop body status u n (Suc i) (emit (GetStatus u) (emit (Sleep 1) s))) = Continue"
    using Suc.prems by (intro Suc.IH) auto
  with c show ?case by (simp add: Let_def)
qed

lemma poll_loop_result:
  "fst (poll_loop body status u n i s) \<noteq> Continue \<Longrightarrow>
     \<exists>j<n. body (status (i + j)) = fst (poll_loop body status u n i s)
           \<and> (\<forall>m<j. body (status (i + m)) = Continue)"
proof (induction n arbitrary: i s)
  case 0
  then show ?case by simp
next
  case (Suc n)
  let ?s1 = "emit (GetStatus u) (emit (Sleep 1) s)"
  show ?case
  proof (cases "body (status i) = Continue")
    case True
    with Suc.prems have ne: "fst (poll_loop body status u n (Suc i) ?s1) \<noteq> Continue"
      and eq: "fst (poll_loop body status u (Suc n) i s) = fst (poll_loop body status u n (Suc i) ?s1)"
      by (auto simp: Let_def)
    from Suc.IH[OF ne] obtain j where j: "j < n"
      "body (status (Suc i + j)) = fst (poll_loop body status u n (Suc i) ?s1)"
      "\<forall>m<j. body (status (Suc i + m)) = Continue" by blast
    have "\<forall>m<Suc j. body (status (i + m)) = Continue"
    proof (intro allI impI)
      fix m assume "m < Suc j"
      then show "body (status (i + m)) = Continue"
        using True j(3) by (cases m) auto
    qed
    with j(1,2) eq show ?thesis
      by (intro exI[of _ "Suc j"]) auto
  next
    case False
    then have "fst (poll_loop body status u (Suc n) i s) = body (status i)"
      by (auto simp: Let_def split: poll_step.splits)
    then show ?thesis by (intro exI[of _ 0]) auto
  qed
qed

subsection \<open>The bodies of the poll loops\<close>

lemma status_is_excl:
  "status_is d ''COMPLETED'' = Inr True \<Longrightarrow> status_is d ''FAILED'' = Inr False"
  by (cases d) (auto simp: status_is_def)

lemma status_is_dict: "status_is d st = Inr b \<Longrightarrow> \<exists>kvs. d = JObj kvs"
  by (cases d) (auto simp: status_is_def)

lemma status_step_background_cases:
  "status_step_background d =
     (case status_is d ''COMPLETED'' of
        Inl e \<Rightarrow> Inl e
      | Inr True \<Rightarrow> completed_background d
      | Inr False \<Rightarrow> (case status_is d ''FAILED'' of Inl e \<Rightarrow> Inl e | Inr True \<Rightarrow> Inr (Return None) | Inr False \<Rightarrow> Inr Continue))"
  by (auto simp: status_step_background_def split: sum.splits bool.splits)

lemma completed_background_not_continue: "completed_background d \<noteq> Inr Continue"
  by (auto simp: completed_background_def ebind_def split: sum.splits if_splits)

lemma completed_foreground_not_continue: "completed_foreground d \<noteq> Inr Continue"
  by (auto simp: completed_foreground_def ebind_def split: sum.splits if_splits option.splits json.splits list.splits)

text \<open>A reply without status COMPLETED or FAILED continues each loop.\<close>

lemma body_other_continue:
  assumes "\<not> has_status r ''COMPLETED''" "\<not> has_status r ''FAILED''"
  shows "poll_body_of status_step_background r = Continue"
    and "poll_body_of status_step_foreground r = Continue"
    and "poll_body_of status_step_rmbg r = Continue"
  using assms
  by (auto simp: poll_body_of_def has_status_def status_step_background_def
        status_step_foreground_def status_step_rmbg_def ebind_def
        split: http_result.splits sum.splits)

lemma body_failed:
  assumes "has_status r ''FAILED''"
  shows "poll_body_of status_step_background r = Return None"
    and "poll_body_of status_step_foreground r = Return None"
    and "poll_body_of status_step_rmbg r = Return None"
proof -
  from assms obtain d where r: "r = HttpJson d" and f: "status_is d ''FAILED'' = Inr True"
    by (auto simp: has_status_def split: http_result.splits)
  then have c: "status_is d ''COMPLETED'' = Inr False"
    by (cases d) (auto simp: status_is_def)
  show "poll_body_of status_step_background r = Return None"
    and "poll_body_of status_step_foreground r = Return None"
    and "poll_body_of status_step_rmbg r = Return None"
    using r f c
    by (simp_all add: poll_body_of_def status_step_background_def
          status_step_foreground_def status_step_rmbg_def)
qed

lemma body_background_break:
  "poll_body_of status_step_background r = Break u \<Longrightarrow> has_status r ''COMPLETED''"
  by (auto simp: poll_body_of_def has_status_def status_step_background_def ebind_def
        split: http_result.splits sum.splits if_splits)

lemma py_in_obj: "py_in k (JObj kvs) = Inr (map_of kvs k \<noteq> None)"
  by (simp add: map_of_eq_None_iff)

lemma py_index0_first_item:
  "py_index0 y = Inr u \<Longrightarrow> first_item y = Some u"
  by (cases y rule: py_index0.cases) (auto split: list.splits)

lemma completed_background_spec:
  assumes "completed_background (JObj kvs) = Inr st"
  shows "st = (case spec_image_url (JObj kvs) of None \<Rightarrow> Return None | Some u \<Rightarrow> Break u)"
proof (cases "map_of kvs ''result''")
  case None
  with assms show ?thesis
    by (auto simp: completed_background_def has_nested_def spec_image_url_def py_in_obj
          simp del: py_in.simps split: if_splits option.splits)
next
  case (Some r)
  with assms show ?thesis
    by (cases r)
       (auto simp: completed_background_def has_nested_def spec_image_url_def py_in_obj
          ebind_def simp del: py_in.simps(1) dest: py_index0_first_item
          split: if_splits option.splits sum.splits)
qed

lemma field_status: "status_is d st = Inr b \<Longrightarrow> b = (field d ''status'' = Some (JStr st))"
  by (cases d) (auto simp: status_is_def)

lemma has_status_field:
  "has_status (HttpJson d) st = (field d ''status'' = Some (JStr st))"
  by (cases d) (auto simp: has_status_def status_is_def)

text \<open>The body of the background loop against the lookups as the specification words them.\<close>

lemma body_background_spec:
  "poll_body_of status_step_background r = spec_poll_body r
   \<or> (has_status r ''COMPLETED'' \<and> poll_body_of status_step_background r = Continue)"
proof (cases r)
  case HttpRaises
  then show ?thesis by (simp add: poll_body_of_def spec_poll_body_def)
next
  case (HttpJson d)
  show ?thesis
  proof (cases d)
    case (JObj kvs)
    show ?thesis
    proof (cases "completed_background (JObj kvs)")
      case (Inl e)
      then show ?thesis
        using HttpJson JObj
        by (auto simp: poll_body_of_def spec_poll_body_def status_step_background_def
              status_is_def has_status_def)
    next
      case (Inr st)
      from completed_background_spec[OF this] Inr show ?thesis
        using HttpJson JObj
        by (auto simp: poll_body_of_def spec_poll_body_def status_step_background_def
              status_is_def has_status_def)
    qed
  qed (use HttpJson in \<open>auto simp: poll_body_of_def spec_poll_body_def
         status_step_background_def status_is_def\<close>)
qed

lemma download_to_result: "fst (download_to w suf pre url s) = download_result w suf pre url"
  by (simp add: download_to_def download_result_def Let_def)

lemma field_status_url:
  "field data ''status_url'' = Some url \<Longrightarrow>
     py_in ''status_url'' data = Inr True \<and> py_getitem data ''status_url'' = Inr url"
  by (cases data) (auto dest: map_of_SomeD intro: rev_image_eqI)

lemma finish_image_result:
  "fst (finish_image w (Some u) s)
     = Inr (if truthy u then download_result w ''.exr'' ''previz_bg_'' u else None)"
  using download_to_result[of w "''.exr''" "''previz_bg_''" u s]
  by (auto simp: finish_image_def download_image_def split: prod.splits)

lemma make_api_call_async:
  assumes "build_prompt py_str sd = Inr p" "image_api w p = HttpJson data"
    "field data ''status_url'' = Some url"
  shows "fst (make_api_call py_str w sd s)
     = (case fst (poll_loop (poll_body_of status_step_background) (image_status w) url 60 0
                    (emit (Post BRIA_IMAGE_ENDPOINT) s)) of
          Break u \<Rightarrow> Inr (if truthy u then download_result w ''.exr'' ''previz_bg_'' u else None)
        | _ \<Rightarrow> Inr None)"
  using assms(1,2) field_status_url[OF assms(3)] finish_image_result[of w]
  by (auto simp: make_api_call_def Let_def split: prod.splits poll_step.splits)

subsection \<open>Traces of the client\<close>

lemma rounds_trace [simp]:
  "sleeps (concat (replicate k [Sleep (Suc 0), GetStatus u])) = replicate k (Suc 0)"
  "polls (concat (replicate k [Sleep (Suc 0), GetStatus u])) = replicate k u"
  "posts (concat (replicate k [Sleep (Suc 0), GetStatus u])) = []"
  "timers (concat (replicate k [Sleep (Suc 0), GetStatus u])) = []"
  by (induction k) (simp_all add: sleeps_def polls_def posts_def timers_def)

lemma bounded_polls_refl: "bounded_polls n t t"
  by (auto simp: bounded_polls_def intro: exI[of _ 0])

lemma bounded_polls_other:
  "sleeps [e] = [] \<Longrightarrow> polls [e] = [] \<Longrightarrow> bounded_polls n t t' \<Longrightarrow> bounded_polls n t (t' @ [e])"
  by (auto simp: bounded_polls_def)

lemma bounded_polls_pre:
  "sleeps [e] = [] \<Longrightarrow> polls [e] = [] \<Longrightarrow> bounded_polls n (t @ [e]) t' \<Longrightarrow> bounded_polls n t t'"
  by (auto simp: bounded_polls_def)

lemma poll_loop_trace:
  assumes "poll_loop body status u n i s = (r, s')"
  shows "bounded_polls n (events s) (events s')"
    and "posts (events s') = posts (events s)"
    and "timers (events s') = timers (events s)"
    and "r = Continue \<Longrightarrow> sleeps (events s') = sleeps (events s) @ replicate n 1"
    and "files s' = files s"
proof -
  from poll_loop_events[OF assms] obtain k where k: "k \<le> n"
    "events s' = events s @ concat (replicate k [Sleep 1, GetStatus u])"
    "r = Continue \<longrightarrow> k = n" by blast
  show "bounded_polls n (events s) (events s')"
    using k(1,2) by (auto simp: bounded_polls_def)
  show "posts (events s') = posts (events s)" "timers (events s') = timers (events s)"
    using k(2) by simp_all
  show "r = Continue \<Longrightarrow> sleeps (events s') = sleeps (events s) @ replicate n 1"
    using k(2,3) by simp
  show "files s' = files s"
    using poll_loop_files[of body status u n i s] assms by simp
qed

lemma download_to_trace:
  "events (snd (download_to w suf pre url s)) = events s @ [Download url]"
  by (simp add: download_to_def Let_def)

lemma download_to_files:
  "files s \<subseteq> files (snd (download_to w suf pre url s))"
  "download_to w suf pre url s = (Some path, s') \<Longrightarrow> path \<in> files s'"
  by (auto simp: download_to_def Let_def split: if_splits)

lemma finish_image_trace:
  "\<exists>t. events (snd (finish_image w x s)) = events s @ t
       \<and> sleeps t = [] \<and> polls t = [] \<and> posts t = [] \<and> timers t = []"
proof (cases "\<exists>u. x = Some u \<and> truthy u")
  case True
  then obtain u where "x = Some u" "truthy u" by blast
  then have "events (snd (finish_image w x s)) = events s @ [Download u]"
    using download_to_trace[of w "''.exr''" "''previz_bg_''" u s]
    by (cases "download_to w ''.exr'' ''previz_bg_'' u s")
       (simp add: finish_image_def download_image_def)
  then show ?thesis by (intro exI[of _ "[Download u]"]) simp
next
  case False
  then have "events (snd (finish_image w x s)) = events s @ []"
    by (auto simp: finish_image_def split: option.splits)
  then show ?thesis by (intro exI[of _ "[]"]) (simp add: sleeps_def polls_def posts_def timers_def)
qed

text \<open>The trace of the background call: at most one post, then at most 60 rounds.\<close>

lemma make_api_call_trace:
  "bounded_polls 60 (events s) (events (snd (make_api_call py_str w sd s)))
   \<and> posts (events (snd (make_api_call py_str w sd s)))
       = posts (events s)
         @ (case build_prompt py_str sd of Inl e \<Rightarrow> [] | Inr p \<Rightarrow> [BRIA_IMAGE_ENDPOINT])
   \<and> timers (events (snd (make_api_call py_str w sd s))) = timers (events s)"
proof (cases "build_prompt py_str sd")
  case (Inl e)
  then show ?thesis by (simp add: make_api_call_def bounded_polls_refl)
next
  case (Inr p)
  let ?s1 = "emit (Post BRIA_IMAGE_ENDPOINT) s"
  have s1: "sleeps (events ?s1) = sleeps (events s)" "polls (events ?s1) = polls (events s)"
    "posts (events ?s1) = posts (events s) @ [BRIA_IMAGE_ENDPOINT]"
    "timers (events ?s1) = timers (events s)"
    by simp_all
  have base: "bounded_polls 60 (events s) (events ?s1)"
    by (auto simp: bounded_polls_def intro: exI[of _ 0])
  have fin: "bounded_polls 60 (events s) (events (snd (finish_image w x s2)))
      \<and> posts (events (snd (finish_image w x s2))) = posts (events s) @ [BRIA_IMAGE_ENDPOINT]
      \<and> timers (events (snd (finish_image w x s2))) = timers (events s)"
    if "bounded_polls 60 (events s) (events s2)"
      "posts (events s2) = posts (events s) @ [BRIA_IMAGE_ENDPOINT]"
      "timers (events s2) = timers (events s)" for x s2
  proof -
    from finish_image_trace[of w x s2] obtain t where
      t: "events (snd (finish_image w x s2)) = events s2 @ t"
      "sleeps t = []" "polls t = []" "posts t = []" "timers t = []" by blast
    with that show ?thesis by (auto simp: bounded_polls_def)
  qed
  show ?thesis
  proof (cases "image_api w p")
    case HttpRaises
    with Inr base s1 show ?thesis by (simp add: make_api_call_def Let_def)
  next
    case (HttpJson data)
    show ?thesis
    proof (cases "py_in ''status_url'' data")
      case (Inl e)
      with Inr HttpJson base s1 show ?thesis by (simp add: make_api_call_def Let_def)
    next
      case inr: (Inr b)
      show ?thesis
      proof (cases b)
        case False
        with Inr HttpJson inr base s1 fin[of ?s1] show ?thesis
          by (auto simp: make_api_call_def Let_def split: sum.splits)
      next
        case True
        show ?thesis
        proof (cases "py_getitem data ''status_url''")
          case (Inl e)
          with Inr HttpJson inr True base s1 show ?thesis
            by (simp add: make_api_call_def Let_def)
        next
          case url: (Inr url)
          obtain r s2 where l: "poll_loop (poll_body_of status_step_background) (image_status w)
              url 60 0 ?s1 = (r, s2)" by force
          from poll_loop_trace[OF l] s1
          have t: "bounded_polls 60 (events s) (events s2)"
            "posts (events s2) = posts (events s) @ [BRIA_IMAGE_ENDPOINT]"
            "timers (events s2) = timers (events s)"
            by (auto simp: bounded_polls_def)
          with Inr HttpJson inr True url l fin[OF t] show ?thesis
            by (cases r) (auto simp: make_api_call_def Let_def)
        qed
      qed
    qed
  qed
qed

lemma poll_for_image_result_trace:
  "bounded_polls 60 (events s) (events (snd (poll_for_image_result w data s)))
   \<and> posts (events (snd (poll_for_image_result w data s))) = posts (events s)
   \<and> timers (events (snd (poll_for_image_result w data s))) = timers (events s)
   \<and> files (snd (poll_for_image_result w data s)) = files s"
proof (cases "\<exists>url. py_in ''status_url'' data = Inr True
                 \<and> py_getitem data ''status_url'' = Inr url")
  case True
  then obtain url where u: "py_in ''status_url'' data = Inr True"
    "py_getitem data ''status_url'' = Inr url" by blast
  obtain r s2 where l: "poll_loop (poll_body_of status_step_foreground) (image_status w)
      url 60 0 s = (r, s2)" by force
  from poll_loop_trace[OF l] u l show ?thesis
    by (cases r) (auto simp: poll_for_image_result_def)
next
  case False
  then have "snd (poll_for_image_result w data s) = s"
    by (auto simp: poll_for_image_result_def split: sum.splits bool.splits)
  then show ?thesis by (simp add: bounded_polls_refl)
qed

lemma remove_background_trace:
  "bounded_polls 30 (events s) (events (snd (remove_background w image_url s)))
   \<and> posts (events (snd (remove_background w image_url s)))
       = posts (events s)
         @ (if is_str image_url \<or> is_list image_url then [BRIA_RMBG_ENDPOINT] else [])
   \<and> timers (events (snd (remove_background w image_url s))) = timers (events s)
   \<and> files (snd (remove_background w image_url s)) = files s"
proof (cases "is_str image_url \<or> is_list image_url")
  case False
  then show ?thesis by (simp add: remove_background_def bounded_polls_refl)
next
  case ok: True
  let ?s1 = "emit (Post BRIA_RMBG_ENDPOINT) s"
  have base: "bounded_polls 30 (events s) (events ?s1)"
    by (auto simp: bounded_polls_def intro: exI[of _ 0])
  show ?thesis
  proof (cases "\<exists>data url. rmbg_api w image_url = HttpJson data
                 \<and> py_in ''status_url'' data = Inr True
                 \<and> py_getitem data ''status_url'' = Inr url")
    case True
    then obtain data url where u: "rmbg_api w image_url = HttpJson data"
      "py_in ''status_url'' data = Inr True"
      "py_getitem data ''status_url'' = Inr url" by blast
    obtain r s2 where l: "poll_loop (poll_body_of status_step_rmbg) (rmbg_status w)
        url 30 0 ?s1 = (r, s2)" by force
    from poll_loop_trace[OF l]
    have "bounded_polls 30 (events s) (events s2)"
      "posts (events s2) = posts (events s) @ [BRIA_RMBG_ENDPOINT]"
      "timers (events s2) = timers (events s)" "files s2 = files s"
      by (auto simp: bounded_polls_def)
    with ok u l show ?thesis
      by (cases r) (auto simp: remove_background_def Let_def)
  next
    case False
    then have "snd (remove_background w image_url s) = ?s1"
      using ok
      by (auto simp: remove_background_def Let_def
            split: http_result.splits sum.splits bool.splits)
    with ok base show ?thesis by simp
  qed
qed

lemma bounded_polls_trans:
  "bounded_polls m a b \<Longrightarrow> bounded_polls n b c \<Longrightarrow> bounded_polls (m + n) a c"
  unfolding bounded_polls_def
proof (elim exE conjE)
  fix k l
  assume "k \<le> m" "sleeps b = sleeps a @ replicate k 1" "length (polls b) = length (polls a) + k"
    "l \<le> n" "sleeps c = sleeps b @ replicate l 1" "length (polls c) = length (polls b) + l"
  then show "\<exists>k\<le>m + n. sleeps c = sleeps a @ replicate k 1
               \<and> length (polls c) = length (polls a) + k"
    by (intro exI[of _ "k + l"]) (simp add: replicate_add)
qed

lemma bounded_polls_emit:
  "sleeps [e] = [] \<Longrightarrow> polls [e] = [] \<Longrightarrow> bounded_polls 0 (events s) (events (emit e s))"
  by (simp add: bounded_polls_def)

lemma download_to_bounded:
  "bounded_polls 0 (events s) (events (snd (download_to w suf pre url s)))"
  by (simp add: download_to_trace bounded_polls_def)

text \<open>The foreground pipeline: one post per stage, at most 60 and then 30 rounds.\<close>

lemma generate_foreground_sync_trace:
  "bounded_polls 90 (events s) (events (snd (generate_foreground_sync w description s)))
   \<and> (posts (events (snd (generate_foreground_sync w description s)))
         = posts (events s) @ [BRIA_IMAGE_ENDPOINT]
       \<or> posts (events (snd (generate_foreground_sync w description s)))
         = posts (events s) @ [BRIA_IMAGE_ENDPOINT, BRIA_RMBG_ENDPOINT])
   \<and> timers (events (snd (generate_foreground_sync w description s))) = timers (events s)
   \<and> files s \<subseteq> files (snd (generate_foreground_sync w description s))"
proof -
  let ?s1 = "emit (Post BRIA_IMAGE_ENDPOINT) s"
  let ?G = "generate_foreground_sync w description s"
  have b1: "bounded_polls 0 (events s) (events ?s1)"
    by (simp add: bounded_polls_def)
  have p1: "posts (events ?s1) = posts (events s) @ [BRIA_IMAGE_ENDPOINT]"
    "timers (events ?s1) = timers (events s)" "files ?s1 = files s"
    by simp_all
  show ?thesis
  proof (cases "image_api w (foreground_prompt description)")
    case HttpRaises
    then have "snd ?G = ?s1" by (simp add: generate_foreground_sync_def Let_def)
    with b1 p1 show ?thesis by (auto simp: bounded_polls_def)
  next
    case (HttpJson data)
    obtain r2 s2 where pr: "poll_for_image_result w data ?s1 = (r2, s2)" by force
    from poll_for_image_result_trace[of ?s1 w data] pr p1
    have t2: "bounded_polls 60 (events ?s1) (events s2)"
      "posts (events s2) = posts (events s) @ [BRIA_IMAGE_ENDPOINT]"
      "timers (events s2) = timers (events s)" "files s2 = files s"
      by simp_all
    from bounded_polls_trans[OF b1 t2(1)] have b2: "bounded_polls 60 (events s) (events s2)"
      by simp
    have b2': "bounded_polls 90 (events s) (events s2)"
      using b2 by (auto simp: bounded_polls_def)
    show ?thesis
    proof (cases "\<exists>image_url. r2 = Inr (Some image_url) \<and> truthy image_url")
      case False
      then have "snd ?G = s2"
        using HttpJson pr
        by (auto simp: generate_foreground_sync_def Let_def split: sum.splits option.splits)
      with t2 b2' show ?thesis by simp
    next
      case True
      then obtain image_url where iu: "r2 = Inr (Some image_url)" "truthy image_url" by blast
      obtain r3 s3 where rb: "remove_background w image_url s2 = (r3, s3)" by force
      from remove_background_trace[of s2 w image_url] rb t2
      have t3: "bounded_polls 30 (events s2) (events s3)"
        "posts (events s3) = posts (events s) @ [BRIA_IMAGE_ENDPOINT]
           \<or> posts (events s3) = posts (events s) @ [BRIA_IMAGE_ENDPOINT, BRIA_RMBG_ENDPOINT]"
        "timers (events s3) = timers (events s)" "files s3 = files s"
        by (simp_all split: if_splits)
      from bounded_polls_trans[OF b2 t3(1)] have b3: "bounded_polls 90 (events s) (events s3)"
        by simp
      show ?thesis
      proof (cases "\<exists>t. r3 = Inr (Some t) \<and> truthy t")
        case False
        then have "snd ?G = s3"
          using HttpJson pr iu rb
          by (auto simp: generate_foreground_sync_def Let_def split: sum.splits option.splits)
        with t3 b3 show ?thesis by simp
      next
        case True
        then obtain t where tu: "r3 = Inr (Some t)" "truthy t" by blast
        let ?d = "download_to w ''.png'' ''previz_foreground_'' t s3"
        have g: "snd ?G = snd ?d"
          using HttpJson pr iu rb tu
          by (simp add: generate_foreground_sync_def Let_def download_image_as_png_def
                split: prod.splits)
        have e: "events (snd ?d) = events s3 @ [Download t]"
          by (rule download_to_trace)
        have "bounded_polls 90 (events s) (events (snd ?d))"
          using b3 e by (auto simp: bounded_polls_def)
        moreover have "files s \<subseteq> files (snd ?d)"
          using download_to_files(1)[of s3 w "''.png''" "''previz_foreground_''" t] t3(4)
          by simp
        ultimately show ?thesis
          using g e t3 by auto
      qed
    qed
  qed
qed

subsection \<open>The example worlds\<close>

lemma build_prompt_default:
  "build_prompt py_str DEFAULT_PARAMETERS = Inr ''Lighting: Natural''"
  by (simp add: build_prompt_def DEFAULT_PARAMETERS_def dget_def lighting_part_def
        strip_empty_def strip_def is_space_def whitespace_def)

lemma pending_body:
  "poll_body_of status_step_background (image_status pending_world 0) = Continue"
  "poll_body_of status_step_background (image_status pending_world 1) = Continue"
  "poll_body_of status_step_background (image_status pending_world 2)
     = Break (JStr ''https://cdn.example/42.exr'')"
  by (simp_all add: pending_world_def poll_body_of_def status_step_background_def
        status_is_def completed_background_def has_nested_def)

subsection \<open>Loops that use up their range\<close>

lemma make_api_call_exhausted:
  assumes "build_prompt py_str sd = Inr p" "image_api w p = HttpJson data"
    "field data ''status_url'' = Some url"
    "\<forall>i<60. poll_body_of status_step_background (image_status w i) = Continue"
  shows "fst (make_api_call py_str w sd s) = Inr None"
    and "sleeps (events (snd (make_api_call py_str w sd s))) = sleeps (events s) @ replicate 60 1"
proof -
  let ?s1 = "emit (Post BRIA_IMAGE_ENDPOINT) s"
  obtain r s2 where l: "poll_loop (poll_body_of status_step_background) (image_status w)
      url 60 0 ?s1 = (r, s2)" by force
  have "r = Continue"
    using poll_loop_exhausted[of 60 "poll_body_of status_step_background" "image_status w" 0
            url ?s1] assms(4) l by simp
  with l assms(1,2) field_status_url[OF assms(3)]
  have m: "make_api_call py_str w sd s = (Inr None, s2)"
    by (simp add: make_api_call_def Let_def)
  from poll_loop_trace(4)[OF l \<open>r = Continue\<close>]
  have "sleeps (events s2) = sleeps (events s) @ replicate 60 1" by simp
  with m show "fst (make_api_call py_str w sd s) = Inr None"
    and "sleeps (events (snd (make_api_call py_str w sd s))) = sleeps (events s) @ replicate 60 1"
    by simp_all
qed

lemma poll_for_image_result_exhausted:
  assumes "field data ''status_url'' = Some url"
    "\<forall>i<60. poll_body_of status_step_foreground (image_status w i) = Continue"
  shows "fst (poll_for_image_result w data s) = Inr None"
    and "sleeps (events (snd (poll_for_image_result w data s)))
           = sleeps (events s) @ replicate 60 1"
proof -
  obtain r s2 where l: "poll_loop (poll_body_of status_step_foreground) (image_status w)
      url 60 0 s = (r, s2)" by force
  have "r = Continue"
    using poll_loop_exhausted[of 60 "poll_body_of status_step_foreground" "image_status w" 0
            url s] assms(2) l by simp
  with l field_status_url[OF assms(1)]
  have m: "poll_for_image_result w data s = (Inr None, s2)"
    by (simp add: poll_for_image_result_def)
  from poll_loop_trace(4)[OF l \<open>r = Continue\<close>] m
  show "fst (poll_for_image_result w data s) = Inr None"
    and "sleeps (events (snd (poll_for_image_result w data s)))
           = sleeps (events s) @ replicate 60 1"
    by simp_all
qed

lemma remove_background_exhausted:
  assumes "is_str image_url \<or> is_list image_url" "rmbg_api w image_url = HttpJson data"
    "field data ''status_url'' = Some url"
    "\<forall>i<30. poll_body_of status_step_rmbg (rmbg_status w i) = Continue"
  shows "fst (remove_background w image_url s) = Inr None"
    and "sleeps (events (snd (remove_background w image_url s)))
           = sleeps (events s) @ replicate 30 1"
proof -
  let ?s1 = "emit (Post BRIA_RMBG_ENDPOINT) s"
  obtain r s2 where l: "poll_loop (poll_body_of status_step_rmbg) (rmbg_status w)
      url 30 0 ?s1 = (r, s2)" by force
  have "r = Continue"
    using poll_loop_exhausted[of 30 "poll_body_of status_step_rmbg" "rmbg_status w" 0
            url ?s1] assms(4) l by simp
  with l assms(1,2) field_status_url[OF assms(3)]
  have m: "remove_background w image_url s = (Inr None, s2)"
    by (simp add: remove_background_def Let_def)
  from poll_loop_trace(4)[OF l \<open>r = Continue\<close>] m
  show "fst (remove_background w image_url s) = Inr None"
    and "sleeps (events (snd (remove_background w image_url s)))
           = sleeps (events s) @ replicate 30 1"
    by simp_all
qed

subsection \<open>Outcomes of the two requests\<close>






subsection \<open>The state of the panel\<close>

lemma fold_apply_event: "last_scene_data (fold apply_event t st) = last_scene_data st"
  by (induction t arbitrary: st) (auto simp: apply_event_def split: event.splits)

subsection \<open>The background poll loop against the words of the specification\<close>

text \<open>
  In the asynchronous branch of \<^verbatim>\<open>_make_api_call\<close> (the prompt was built, the post was
  answered by a dictionary with a \<^verbatim>\<open>status_url\<close>): a path is returned only if one of
  the 60 polls has status \<^verbatim>\<open>COMPLETED\<close>; the body of the loop does what the
  specification says on every reply on which its lookups do not raise, and continues on
  a completed reply on which one raises; a reply with status \<^verbatim>\<open>FAILED\<close> returns
  \<^verbatim>\<open>None\<close>, any other reply continues; the first poll whose body does not continue
  decides the call.
\<close>

lemma make_api_call_polling:
  assumes "build_prompt py_str scene_data = Inr p"
    and "image_api w p = HttpJson data"
    and "field data ''status_url'' = Some url"
  shows "(fst (make_api_call py_str w scene_data s) = Inr (Some path) \<longrightarrow>
            (\<exists>i<60. has_status (image_status w i) ''COMPLETED''))
     \<and> (poll_body_of status_step_background r = spec_poll_body r
          \<or> (has_status r ''COMPLETED''
              \<and> poll_body_of status_step_background r = Continue))
     \<and> (has_status (HttpJson d) ''COMPLETED'' \<and> completed_background d = Inr st \<longrightarrow>
          poll_body_of status_step_background (HttpJson d) = spec_poll_body (HttpJson d))
     \<and> (has_status r ''FAILED'' \<longrightarrow> poll_body_of status_step_background r = Return None)
     \<and> (\<not> has_status r ''COMPLETED'' \<and> \<not> has_status r ''FAILED'' \<longrightarrow>
          poll_body_of status_step_background r = Continue)
     \<and> (j < 60 \<and> (\<forall>m<j. poll_body_of status_step_background (image_status w m) = Continue)
          \<and> poll_body_of status_step_background (image_status w j) = Return x \<longrightarrow>
          fst (make_api_call py_str w scene_data s) = Inr None)
     \<and> (j < 60 \<and> (\<forall>m<j. poll_body_of status_step_background (image_status w m) = Continue)
          \<and> poll_body_of status_step_background (image_status w j) = Break u \<longrightarrow>
          fst (make_api_call py_str w scene_data s)
            = Inr (if truthy u then download_result w ''.exr'' ''previz_bg_'' u else None))
     \<and> ((\<forall>m<60. poll_body_of status_step_background (image_status w m) = Continue) \<longrightarrow>
          fst (make_api_call py_str w scene_data s) = Inr None)"
proof -
  let ?B = "poll_body_of status_step_background"
  let ?s1 = "emit (Post BRIA_IMAGE_ENDPOINT) s"
  let ?L = "fst (poll_loop ?B (image_status w) url 60 0 ?s1)"
  note res = make_api_call_async[OF assms, of s]
  have a: "fst (make_api_call py_str w scene_data s) = Inr (Some path) \<longrightarrow>
            (\<exists>i<60. has_status (image_status w i) ''COMPLETED'')"
  proof
    assume "fst (make_api_call py_str w scene_data s) = Inr (Some path)"
    with res obtain u where u: "?L = Break u"
      by (auto split: poll_step.splits)
    then have "?L \<noteq> Continue" by simp
    from poll_loop_result[OF this] u obtain i where "i < 60" "?B (image_status w i) = Break u"
      by auto
    then show "\<exists>i<60. has_status (image_status w i) ''COMPLETED''"
      using body_background_break by blast
  qed
  have b: "?B r = spec_poll_body r \<or> (has_status r ''COMPLETED'' \<and> ?B r = Continue)"
    by (rule body_background_spec)
  have c: "has_status (HttpJson d) ''COMPLETED'' \<and> completed_background d = Inr st \<longrightarrow>
          ?B (HttpJson d) = spec_poll_body (HttpJson d)"
  proof
    assume h: "has_status (HttpJson d) ''COMPLETED'' \<and> completed_background d = Inr st"
    then obtain kvs where d: "d = JObj kvs"
      using status_is_dict[of d "''COMPLETED''" True] by (auto simp: has_status_def)
    from h completed_background_spec[of kvs st] d
    show "?B (HttpJson d) = spec_poll_body (HttpJson d)"
      by (auto simp: poll_body_of_def spec_poll_body_def status_step_background_def
            has_status_def status_is_def)
  qed
  have d: "has_status r ''FAILED'' \<longrightarrow> ?B r = Return None"
    using body_failed(1) by blast
  have e: "\<not> has_status r ''COMPLETED'' \<and> \<not> has_status r ''FAILED'' \<longrightarrow> ?B r = Continue"
    using body_other_continue(1) by blast
  have dec: "?L = ?B (image_status w j)"
    if "j < 60" "\<forall>m<j. ?B (image_status w m) = Continue" "?B (image_status w j) \<noteq> Continue"
    using poll_loop_decided[of j 60 ?B "image_status w" 0 url ?s1] that by simp
  have f: "j < 60 \<and> (\<forall>m<j. ?B (image_status w m) = Continue)
          \<and> ?B (image_status w j) = Return x \<longrightarrow>
          fst (make_api_call py_str w scene_data s) = Inr None"
    using dec res by auto
  have g: "j < 60 \<and> (\<forall>m<j. ?B (image_status w m) = Continue)
          \<and> ?B (image_status w j) = Break u \<longrightarrow>
          fst (make_api_call py_str w scene_data s)
            = Inr (if truthy u then download_result w ''.exr'' ''previz_bg_'' u else None)"
    using dec res by auto
  have h: "(\<forall>m<60. ?B (image_status w m) = Continue) \<longrightarrow>
          fst (make_api_call py_str w scene_data s) = Inr None"
    using poll_loop_exhausted[of 60 ?B "image_status w" 0 url ?s1] res by auto
  from a b c d e f g h show ?thesis by blast
qed

text \<open>
  An instance: two pending polls, then a completed one with \<^verbatim>\<open>result.urls\<close>; the file
  is downloaded.
\<close>

text \<open>An instance: the job is pending for two polls and then completed.\<close>

lemma make_api_call_polling_pending:
  "fst (make_api_call (\<lambda>v. []) pending_world DEFAULT_PARAMETERS empty_sys)
     = Inr (Some ''/tmp/previz_bg_k3x9.exr'')
   \<and> (\<exists>i<60. has_status (image_status pending_world i) ''COMPLETED'')"
proof -
  have p: "build_prompt (\<lambda>v. []) DEFAULT_PARAMETERS = Inr ''Lighting: Natural''"
    by (rule build_prompt_default)
  have q: "image_api pending_world ''Lighting: Natural'' = HttpJson async_reply"
    by (simp add: pending_world_def)
  have f: "field async_reply ''status_url''
             = Some (JStr ''https://engine.prod.bria-api.com/v2/status/42'')"
    by (simp add: async_reply_def)
  have m: "\<forall>m<2. poll_body_of status_step_background (image_status pending_world m) = Continue"
    using pending_body(1,2) by (auto simp: less_Suc_eq numeral_2_eq_2)
  have dl: "download_result pending_world ''.exr'' ''previz_bg_''
              (JStr ''https://cdn.example/42.exr'') = Some ''/tmp/previz_bg_k3x9.exr''"
    by (simp add: download_result_def mkstemp_def pending_world_def)
  note t = make_api_call_polling[OF p q f, of empty_sys "''/tmp/previz_bg_k3x9.exr''"
             _ _ _ 2 _ "JStr ''https://cdn.example/42.exr''"]
  from t m pending_body(3) dl
  have r: "fst (make_api_call (\<lambda>v. []) pending_world DEFAULT_PARAMETERS empty_sys)
     = Inr (Some ''/tmp/previz_bg_k3x9.exr'')"
    by simp
  with t show ?thesis by blast
qed

text \<open>
  The poller of the foreground pipeline, \<^verbatim>\<open>_poll_for_image_result\<close>, is a different
  function with a different order: with a dictionary as \<^verbatim>\<open>result\<close> it never reads the
  top-level \<^verbatim>\<open>image_url\<close>.
\<close>

lemma foreground_body_ignores_top_level_url:
  "poll_body_of status_step_foreground
     (HttpJson (JObj [(''status'', JStr ''COMPLETED''), (''result'', JObj []),
                      (''image_url'', JStr ''https://cdn.example/42.png'')]))
     = Return None"
  by (simp add: poll_body_of_def status_step_foreground_def status_is_def
        completed_foreground_def result_of_def first_of_urls_def truthy_opt_def)

subsection \<open>C8: the scene parameters always have the four default keys\<close>

text \<open>
  Claim C8. For every text prompt, every reply of the service (also none) and every
  behaviour of \<^verbatim>\<open>json.loads\<close>, the dictionary that \<^verbatim>\<open>get_scene_parameters\<close> returns has
  the keys \<^verbatim>\<open>camera_angle\<close>, \<^verbatim>\<open>lighting\<close>, \<^verbatim>\<open>composition\<close> and \<^verbatim>\<open>field_of_view\<close>: the
  result is \<^verbatim>\<open>DEFAULT_PARAMETERS\<close> itself or the outcome of a successful
  \<^verbatim>\<open>update\<close> of it, and \<^verbatim>\<open>update\<close> removes no key.
\<close>

theorem get_scene_parameters_default_keys:
  "{KStr ''camera_angle'', KStr ''lighting'', KStr ''composition'', KStr ''field_of_view''}
     \<subseteq> keys (get_scene_parameters api jl text_prompt)
   \<and> (get_scene_parameters api jl text_prompt = DEFAULT_PARAMETERS
      \<or> (\<exists>params. dict_update DEFAULT_PARAMETERS params
                     = Inr (get_scene_parameters api jl text_prompt)))"
proof -
  let ?r = "get_scene_parameters api jl text_prompt"
  have c: "?r = DEFAULT_PARAMETERS \<or> (\<exists>params. dict_update DEFAULT_PARAMETERS params = Inr ?r)"
    unfolding get_scene_parameters_def
    by (auto split: http_result.splits sum.splits dest: scene_parameters_of_cases)
  then have "keys DEFAULT_PARAMETERS \<subseteq> keys ?r"
    using keys_dict_update by auto
  with c show ?thesis
    unfolding keys_DEFAULT_PARAMETERS by blast
qed

text \<open>
  An instance: the service answers with a structured prompt that decodes to the list
  \<^verbatim>\<open>[[1, 2]]\<close>, which \<^verbatim>\<open>update\<close> reads as the pair of key \<^verbatim>\<open>1\<close> and value \<^verbatim>\<open>2\<close>.
\<close>

theorem get_scene_parameters_default_keys_witness:
  "KStr ''lighting''
     \<in> keys (get_scene_parameters (\<lambda>p. HttpJson sample_reply) sample_loads
               ''INT. WAREHOUSE - NIGHT'')"
  using get_scene_parameters_default_keys
          [of "\<lambda>p. HttpJson sample_reply" sample_loads "''INT. WAREHOUSE - NIGHT''"]
  by blast

lemma get_scene_parameters_sample:
  "get_scene_parameters (\<lambda>p. HttpJson sample_reply) sample_loads ''INT. WAREHOUSE - NIGHT''
     = DEFAULT_PARAMETERS @ [(KNum 1, JInt 2)]"
  by (simp add: get_scene_parameters_def scene_parameters_of_def structured_prompt_of_def
        loads_def sample_loads_def sample_reply_def DEFAULT_PARAMETERS_def)

subsection \<open>C9: a refinement drops no key\<close>

text \<open>
  Claim C9. For every dictionary of existing parameters, every refinement request and
  every reply of the service, the dictionary that \<^verbatim>\<open>refine_scene_parameters\<close> returns has
  every key of the existing parameters: the path through the service updates a copy of
  them, and \<^verbatim>\<open>_fallback_refinement\<close> only assigns entries of a copy.
\<close>

theorem refine_scene_parameters_keeps_keys:
  "keys existing_params
     \<subseteq> keys (refine_scene_parameters tbl api jd jl existing_params refinement_request)"
  unfolding refine_scene_parameters_def
  using keys_fallback_refinement[of existing_params tbl refinement_request]
  by (auto split: http_result.splits sum.splits dest: keys_refined_parameters_of)

text \<open>An instance: the service is down and the request asks for warmer, softer light.\<close>

theorem refine_scene_parameters_keeps_keys_witness:
  "keys DEFAULT_PARAMETERS
     \<subseteq> keys (refine_scene_parameters plain_table (\<lambda>p. HttpRaises) (\<lambda>d. ''{}'')
               sample_loads DEFAULT_PARAMETERS ''Make the lights WARMER and softer'')"
  using refine_scene_parameters_keeps_keys
          [of DEFAULT_PARAMETERS plain_table "\<lambda>p. HttpRaises" "\<lambda>d. ''{}''" sample_loads
              "''Make the lights WARMER and softer''"]
  by simp

subsection \<open>C2: every poll loop is bounded\<close>

text \<open>
  Claim C2. Whatever the service answers, a run of \<^verbatim>\<open>_make_api_call\<close> and a run of
  \<^verbatim>\<open>_poll_for_image_result\<close> sleep and poll at most 60 times, a run of
  \<^verbatim>\<open>_remove_background\<close> at most 30 times, each sleep being of one second and followed
  by one poll. The original request is posted once: \<^verbatim>\<open>_make_api_call\<close> posts once when
  its prompt could be built, \<^verbatim>\<open>_poll_for_image_result\<close> never posts,
  \<^verbatim>\<open>_remove_background\<close> posts once, and the foreground pipeline posts the image request
  once and the background removal at most once. When no reply within the ceiling has
  status \<^verbatim>\<open>COMPLETED\<close> or \<^verbatim>\<open>FAILED\<close>, the function returns \<^verbatim>\<open>None\<close> after exactly 60
  (30) sleeps. All functions are total: they terminate.
\<close>

theorem polling_is_bounded:
  "bounded_polls 60 (events s) (events (snd (make_api_call py_str w scene_data s)))
   \<and> bounded_polls 60 (events s) (events (snd (poll_for_image_result w data s)))
   \<and> bounded_polls 30 (events s) (events (snd (remove_background w image_url s)))
   \<and> posts (events (snd (make_api_call py_str w scene_data s)))
       = posts (events s)
         @ (case build_prompt py_str scene_data of
              Inl e \<Rightarrow> []
            | Inr p \<Rightarrow> [BRIA_IMAGE_ENDPOINT])
   \<and> posts (events (snd (poll_for_image_result w data s))) = posts (events s)
   \<and> posts (events (snd (remove_background w image_url s)))
       = posts (events s)
         @ (if is_str image_url \<or> is_list image_url then [BRIA_RMBG_ENDPOINT] else [])
   \<and> (posts (events (snd (generate_foreground_sync w description s)))
         = posts (events s) @ [BRIA_IMAGE_ENDPOINT]
       \<or> posts (events (snd (generate_foreground_sync w description s)))
         = posts (events s) @ [BRIA_IMAGE_ENDPOINT, BRIA_RMBG_ENDPOINT])
   \<and> (build_prompt py_str scene_data = Inr p \<and> image_api w p = HttpJson reply
        \<and> field reply ''status_url'' = Some url
        \<and> (\<forall>i<60. \<not> has_status (image_status w i) ''COMPLETED''
                  \<and> \<not> has_status (image_status w i) ''FAILED'') \<longrightarrow>
        fst (make_api_call py_str w scene_data s) = Inr None
        \<and> sleeps (events (snd (make_api_call py_str w scene_data s)))
            = sleeps (events s) @ replicate 60 1)
   \<and> (field data ''status_url'' = Some url
        \<and> (\<forall>i<60. \<not> has_status (image_status w i) ''COMPLETED''
                  \<and> \<not> has_status (image_status w i) ''FAILED'') \<longrightarrow>
        fst (poll_for_image_result w data s) = Inr None
        \<and> sleeps (events (snd (poll_for_image_result w data s)))
            = sleeps (events s) @ replicate 60 1)
   \<and> ((is_str image_url \<or> is_list image_url) \<and> rmbg_api w image_url = HttpJson reply
        \<and> field reply ''status_url'' = Some url
        \<and> (\<forall>i<30. \<not> has_status (rmbg_status w i) ''COMPLETED''
                  \<and> \<not> has_status (rmbg_status w i) ''FAILED'') \<longrightarrow>
        fst (remove_background w image_url s) = Inr None
        \<and> sleeps (events (snd (remove_background w image_url s)))
            = sleeps (events s) @ replicate 30 1)"
proof -
  note a = make_api_call_trace[of s py_str w scene_data]
  note b = poll_for_image_result_trace[of s w data]
  note c = remove_background_trace[of s w image_url]
  note d = generate_foreground_sync_trace[of s w description]
  have e: "build_prompt py_str scene_data = Inr p \<and> image_api w p = HttpJson reply
        \<and> field reply ''status_url'' = Some url
        \<and> (\<forall>i<60. \<not> has_status (image_status w i) ''COMPLETED''
                  \<and> \<not> has_status (image_status w i) ''FAILED'') \<longrightarrow>
        fst (make_api_call py_str w scene_data s) = Inr None
        \<and> sleeps (events (snd (make_api_call py_str w scene_data s)))
            = sleeps (events s) @ replicate 60 1"
    using make_api_call_exhausted[of py_str scene_data p w reply url s] body_other_continue(1)
    by blast
  have f: "field data ''status_url'' = Some url
        \<and> (\<forall>i<60. \<not> has_status (image_status w i) ''COMPLETED''
                  \<and> \<not> has_status (image_status w i) ''FAILED'') \<longrightarrow>
        fst (poll_for_image_result w data s) = Inr None
        \<and> sleeps (events (snd (poll_for_image_result w data s)))
            = sleeps (events s) @ replicate 60 1"
    using poll_for_image_result_exhausted[of data url w s] body_other_continue(2)
    by blast
  have g: "(is_str image_url \<or> is_list image_url) \<and> rmbg_api w image_url = HttpJson reply
        \<and> field reply ''status_url'' = Some url
        \<and> (\<forall>i<30. \<not> has_status (rmbg_status w i) ''COMPLETED''
                  \<and> \<not> has_status (rmbg_status w i) ''FAILED'') \<longrightarrow>
        fst (remove_background w image_url s) = Inr None
        \<and> sleeps (events (snd (remove_background w image_url s)))
            = sleeps (events s) @ replicate 30 1"
    using remove_background_exhausted[of image_url w reply url s] body_other_continue(3)
    by blast
  from a b c d e f g show ?thesis by blast
qed

text \<open>
  An instance: the image job stays pending and the polls of the background removal all
  fail; both give up after their 60 and 30 seconds.
\<close>

theorem polling_is_bounded_witness:
  "fst (make_api_call (\<lambda>v. []) stalled_world DEFAULT_PARAMETERS empty_sys) = Inr None
   \<and> sleeps (events (snd (make_api_call (\<lambda>v. []) stalled_world DEFAULT_PARAMETERS empty_sys)))
       = replicate 60 1
   \<and> posts (events (snd (make_api_call (\<lambda>v. []) stalled_world DEFAULT_PARAMETERS empty_sys)))
       = [BRIA_IMAGE_ENDPOINT]
   \<and> fst (poll_for_image_result stalled_world async_reply empty_sys) = Inr None
   \<and> fst (remove_background stalled_world (JStr ''https://cdn.example/42.png'') empty_sys)
       = Inr None
   \<and> sleeps (events (snd (remove_background stalled_world
                             (JStr ''https://cdn.example/42.png'') empty_sys)))
       = replicate 30 1"
proof -
  have i: "\<forall>i<60. \<not> has_status (image_status stalled_world i) ''COMPLETED''
                  \<and> \<not> has_status (image_status stalled_world i) ''FAILED''"
    by (simp add: stalled_world_def has_status_def status_is_def)
  have r: "\<forall>i<30. \<not> has_status (rmbg_status stalled_world i) ''COMPLETED''
                  \<and> \<not> has_status (rmbg_status stalled_world i) ''FAILED''"
    by (simp add: stalled_world_def has_status_def)
  have f: "field async_reply ''status_url''
             = Some (JStr ''https://engine.prod.bria-api.com/v2/status/42'')"
    by (simp add: async_reply_def)
  have q: "image_api stalled_world ''Lighting: Natural'' = HttpJson async_reply"
    "rmbg_api stalled_world (JStr ''https://cdn.example/42.png'') = HttpJson async_reply"
    by (simp_all add: stalled_world_def)
  have e: "events empty_sys = []"
    by (simp add: empty_sys_def)
  show ?thesis
    using polling_is_bounded[of empty_sys "\<lambda>v. []" stalled_world DEFAULT_PARAMETERS async_reply
            "JStr ''https://cdn.example/42.png''" _ "''Lighting: Natural''" async_reply
            "JStr ''https://engine.prod.bria-api.com/v2/status/42''"]
      build_prompt_default[of "\<lambda>v. []"] i r f q e
    by (simp add: sleeps_def posts_def)
qed

subsection \<open>C3: failures become defaults\<close>



subsection \<open>C10: the export is written to a path that ends in .json\<close>

text \<open>
  Claim C10. For every path the user chooses, Export to Set appends \<^verbatim>\<open>.json\<close> exactly
  when the lower-cased path does not end in \<^verbatim>\<open>.json\<close>, and leaves the path as it is
  otherwise; the lower-cased result always ends in \<^verbatim>\<open>.json\<close>, whatever the case table
  does beyond ASCII. When the write succeeds the operator finishes and the file at that
  path exists; the operator finishes in no other case, and in every case the only file
  it can create is the one at that path. (The extension is there up to case:
  \<^verbatim>\<open>SHOT.JSON\<close> is left as it is.)
\<close>

theorem export_filepath_json:
  "(export_filepath tbl fp = fp @ ''.json'') = (\<not> endswith (lower tbl fp) ''.json'')
   \<and> (export_filepath tbl fp = fp) = endswith (lower tbl fp) ''.json''
   \<and> endswith (lower tbl (export_filepath tbl fp)) ''.json''
   \<and> export_to_set_execute tbl Written st s
        = ((FINISHED, st, []),
           s\<lparr>files := insert (export_filepath tbl (export_path st)) (files s)\<rparr>)
   \<and> export_filepath tbl (export_path st)
        \<in> files (snd (export_to_set_execute tbl Written st s))
   \<and> (fst (fst (export_to_set_execute tbl outcome st s)) = FINISHED) = (outcome = Written)
   \<and> files (snd (export_to_set_execute tbl outcome st s))
        \<subseteq> insert (export_filepath tbl (export_path st)) (files s)"
proof -
  have a: "(export_filepath tbl fp = fp @ ''.json'') = (\<not> endswith (lower tbl fp) ''.json'')"
    and b: "(export_filepath tbl fp = fp) = endswith (lower tbl fp) ''.json''"
    by (auto simp: export_filepath_def)
  have c: "endswith (lower tbl (export_filepath tbl fp)) ''.json''"
    using lower_append_json[of tbl fp] by (simp add: export_filepath_def)
  have d: "export_to_set_execute tbl Written st s
        = ((FINISHED, st, []),
           s\<lparr>files := insert (export_filepath tbl (export_path st)) (files s)\<rparr>)"
    by (simp add: export_to_set_execute_def)
  have e: "(fst (fst (export_to_set_execute tbl outcome st s)) = FINISHED) = (outcome = Written)"
    by (cases outcome) (simp_all add: export_to_set_execute_def)
  have f: "files (snd (export_to_set_execute tbl outcome st s))
        \<subseteq> insert (export_filepath tbl (export_path st)) (files s)"
    by (cases outcome) (auto simp: export_to_set_execute_def)
  from a b c d e f show ?thesis by simp
qed

text \<open>
  An instance: a path without the extension gets it and the file is written there; a
  path with the extension in capitals is kept.
\<close>

theorem export_filepath_json_witness:
  "export_filepath plain_table ''/home/me/shot_12'' = ''/home/me/shot_12.json''
   \<and> export_filepath plain_table ''SHOT.JSON'' = ''SHOT.JSON''
   \<and> endswith (lower plain_table (export_filepath plain_table ''SHOT.JSON'')) ''.json''
   \<and> files (snd (export_to_set_execute plain_table Written
                    (initial_plugin\<lparr>export_path := ''/home/me/shot_12''\<rparr>) empty_sys))
        = {''/home/me/shot_12.json''}
   \<and> fst (fst (export_to_set_execute plain_table Written
                    (initial_plugin\<lparr>export_path := ''/home/me/shot_12''\<rparr>) empty_sys))
        = FINISHED"
proof -
  have a: "\<not> endswith (lower plain_table ''/home/me/shot_12'') ''.json''"
    by (simp add: endswith_def lower_def lower_point_def lower_char_def suffix_def)
  have b: "endswith (lower plain_table ''SHOT.JSON'') ''.json''"
    by (simp add: endswith_def lower_def lower_point_def lower_char_def suffix_def)
  show ?thesis
    using export_filepath_json[of plain_table "''/home/me/shot_12''"
            "initial_plugin\<lparr>export_path := ''/home/me/shot_12''\<rparr>" empty_sys Written]
          export_filepath_json[of plain_table "''SHOT.JSON''" initial_plugin empty_sys Written]
          a b
    by (simp add: empty_sys_def)
qed

subsection \<open>C5: the life of the stored scene data\<close>

text \<open>
  Claim C5, as amended. \<^verbatim>\<open>_last_scene_data\<close> starts empty. Generate Scene is cancelled
  exactly when no script is chosen or the script is blank, and then changes nothing;
  every other run of it, whether it finishes or raises in the director, leaves in
  \<^verbatim>\<open>_last_scene_data\<close> the parameters parsed from the script: the assignment comes before
  the director is called. Refine Scene is cancelled exactly when the stored data is empty
  or the refinement text is blank, and then changes nothing; every other run of it,
  finishing or raising, leaves the refinement of what was stored. Pasting a script,
  adding a foreground element, both steps of the export, and every sequence of events of
  worker threads and timer functions leave \<^verbatim>\<open>_last_scene_data\<close> as it is. (A copy of a
  dictionary is the same value.)
\<close>

theorem last_scene_data_lifecycle:
  "last_scene_data initial_plugin = []
   \<and> (fst (generate_scene_execute env st) = CANCELLED)
        = (case custom_script_text st of None \<Rightarrow> True | Some script \<Rightarrow> strip_empty script)
   \<and> (fst (generate_scene_execute env st) = CANCELLED \<longrightarrow>
        fst (snd (generate_scene_execute env st)) = st)
   \<and> (fst (generate_scene_execute env st) \<noteq> CANCELLED \<longrightarrow>
        (\<exists>script. custom_script_text st = Some script
           \<and> last_scene_data (fst (snd (generate_scene_execute env st)))
               = get_scene_parameters (scene_api env) (json_loads env) script))
   \<and> (fst (generate_scene_execute env st) = FINISHED
        \<or> fst (generate_scene_execute env st) = CANCELLED
        \<or> (\<exists>e. fst (generate_scene_execute env st) = Raises e))
   \<and> (fst (refine_scene_execute env st) = CANCELLED)
        = (last_scene_data st = [] \<or> strip_empty (previz_refine_text st))
   \<and> (fst (refine_scene_execute env st) = CANCELLED \<longrightarrow>
        fst (snd (refine_scene_execute env st)) = st)
   \<and> (fst (refine_scene_execute env st) \<noteq> CANCELLED \<longrightarrow>
        last_scene_data (fst (snd (refine_scene_execute env st)))
          = refine_scene_parameters (unicode_lower env) (scene_api env) (json_dumps env)
              (json_loads env) (last_scene_data st) (previz_refine_text st))
   \<and> (fst (refine_scene_execute env st) = FINISHED
        \<or> fst (refine_scene_execute env st) = CANCELLED
        \<or> (\<exists>e. fst (refine_scene_execute env st) = Raises e))
   \<and> last_scene_data (fst (snd (paste_script_execute clipboard st))) = last_scene_data st
   \<and> last_scene_data (fst (snd (add_foreground_execute st))) = last_scene_data st
   \<and> last_scene_data (fst (snd (export_to_set_invoke timestamp st))) = last_scene_data st
   \<and> last_scene_data (fst (snd (fst (export_to_set_execute tbl outcome st s))))
        = last_scene_data st
   \<and> last_scene_data (fold apply_event t st) = last_scene_data st"
proof -
  let ?g = "generate_scene_execute env st" and ?r = "refine_scene_execute env st"
  have g1: "(fst ?g = CANCELLED)
        = (case custom_script_text st of None \<Rightarrow> True | Some script \<Rightarrow> strip_empty script)"
    by (auto simp: generate_scene_execute_def Let_def split: option.splits sum.splits)
  have g2: "fst ?g = CANCELLED \<longrightarrow> fst (snd ?g) = st"
    by (auto simp: generate_scene_execute_def Let_def split: option.splits sum.splits if_splits)
  have g3: "fst ?g \<noteq> CANCELLED \<longrightarrow>
        (\<exists>script. custom_script_text st = Some script
           \<and> last_scene_data (fst (snd ?g))
               = get_scene_parameters (scene_api env) (json_loads env) script)"
    by (auto simp: generate_scene_execute_def Let_def split: option.splits sum.splits if_splits)
  have g4: "fst ?g = FINISHED \<or> fst ?g = CANCELLED \<or> (\<exists>e. fst ?g = Raises e)"
    by (auto simp: generate_scene_execute_def Let_def split: option.splits sum.splits)
  have r1: "(fst ?r = CANCELLED)
        = (last_scene_data st = [] \<or> strip_empty (previz_refine_text st))"
    by (auto simp: refine_scene_execute_def Let_def split: sum.splits)
  have r2: "fst ?r = CANCELLED \<longrightarrow> fst (snd ?r) = st"
    by (auto simp: refine_scene_execute_def Let_def split: sum.splits if_splits)
  have r3: "fst ?r \<noteq> CANCELLED \<longrightarrow>
        last_scene_data (fst (snd ?r))
          = refine_scene_parameters (unicode_lower env) (scene_api env) (json_dumps env)
              (json_loads env) (last_scene_data st) (previz_refine_text st)"
    by (auto simp: refine_scene_execute_def Let_def split: sum.splits if_splits)
  have r4: "fst ?r = FINISHED \<or> fst ?r = CANCELLED \<or> (\<exists>e. fst ?r = Raises e)"
    by (auto simp: refine_scene_execute_def Let_def split: sum.splits)
  have o: "last_scene_data (fst (snd (paste_script_execute clipboard st))) = last_scene_data st"
    "last_scene_data (fst (snd (add_foreground_execute st))) = last_scene_data st"
    "last_scene_data (fst (snd (export_to_set_invoke timestamp st))) = last_scene_data st"
    "last_scene_data (fst (snd (fst (export_to_set_execute tbl outcome st s))))
       = last_scene_data st"
    by (auto simp: paste_script_execute_def add_foreground_execute_def Let_def
          export_to_set_invoke_def export_to_set_execute_def
          split: write_outcome.splits)
  have i: "last_scene_data initial_plugin = []"
    by (simp add: initial_plugin_def)
  from i g1 g2 g3 g4 r1 r2 r3 r4 o fold_apply_event[of t st] show ?thesis
    by blast
qed

text \<open>
  An instance: with the service down, Generate Scene finishes and stores the defaults;
  a refinement to a low angle then finishes and stores the changed dictionary; before
  any generation both operators are cancelled and change nothing.
\<close>

theorem last_scene_data_lifecycle_witness:
  "last_scene_data (fst (snd (generate_scene_execute sample_env sample_plugin)))
     = DEFAULT_PARAMETERS
   \<and> fst (generate_scene_execute sample_env sample_plugin) = FINISHED
   \<and> last_scene_data
        (fst (snd (refine_scene_execute sample_env
           (sample_plugin\<lparr>last_scene_data := DEFAULT_PARAMETERS,
                           previz_refine_text := ''low angle''\<rparr>))))
     = refine_scene_parameters plain_table (\<lambda>p. HttpRaises) (\<lambda>d. ''{}'') sample_loads
         DEFAULT_PARAMETERS ''low angle''
   \<and> fst (refine_scene_execute sample_env initial_plugin) = CANCELLED
   \<and> fst (snd (refine_scene_execute sample_env initial_plugin)) = initial_plugin
   \<and> fst (snd (generate_scene_execute sample_env initial_plugin)) = initial_plugin"
proof -
  let ?st2 = "sample_plugin\<lparr>last_scene_data := DEFAULT_PARAMETERS,
                             previz_refine_text := ''low angle''\<rparr>"
  have sp: "\<not> strip_empty ''INT. WAREHOUSE - NIGHT''" "\<not> strip_empty ''low angle''"
    by (simp_all add: strip_empty_def strip_def is_space_def whitespace_def)
  have ok: "apply_camera_settings True d = Inr ()" "apply_lighting_settings True d = Inr ()"
    if "d = DEFAULT_PARAMETERS \<or> d = fallback_refinement plain_table DEFAULT_PARAMETERS ''low angle''"
    for d
    using that
    by (auto simp: apply_camera_settings_def apply_lighting_settings_def dget_default_def
          dget_def DEFAULT_PARAMETERS_def fallback_refinement_def lower_def lower_point_def
          lower_char_def refine_temperature_def refine_intensity_def refine_camera_angle_def
          refine_field_of_view_def refine_quality_def dset_def Let_def)
  have g: "fst (generate_scene_execute sample_env sample_plugin) = FINISHED"
    using sp ok[of DEFAULT_PARAMETERS]
    by (simp add: generate_scene_execute_def sample_env_def sample_plugin_def
          initial_plugin_def get_scene_parameters_def Let_def)
  have r: "fst (refine_scene_execute sample_env ?st2) = FINISHED"
    using sp ok[of "fallback_refinement plain_table DEFAULT_PARAMETERS ''low angle''"]
    by (simp add: refine_scene_execute_def sample_env_def sample_plugin_def
          initial_plugin_def refine_scene_parameters_def Let_def DEFAULT_PARAMETERS_def)
  have e: "last_scene_data initial_plugin = []" "custom_script_text initial_plugin = None"
    by (simp_all add: initial_plugin_def)
  show ?thesis
    using last_scene_data_lifecycle[of sample_env sample_plugin] g
          last_scene_data_lifecycle[of sample_env ?st2] r
          last_scene_data_lifecycle[of sample_env initial_plugin] e
    by (auto simp: sample_env_def sample_plugin_def initial_plugin_def
          get_scene_parameters_def)
qed

text \<open>
  The claim as first stated fails: it lets only a successful run change the stored
  data. Here the service sets \<^verbatim>\<open>field_of_view\<close> to a number; the run raises
  \<^verbatim>\<open>AttributeError\<close> in \<^verbatim>\<open>apply_camera_settings\<close>, on \<^verbatim>\<open>.lower()\<close>, and the stored
  data, empty before, holds the parsed parameters after.
\<close>

theorem last_scene_data_lifecycle_counterexample:
  "fst (generate_scene_execute numeric_fov_env sample_plugin) = Raises AttributeError
   \<and> last_scene_data sample_plugin = []
   \<and> last_scene_data (fst (snd (generate_scene_execute numeric_fov_env sample_plugin)))
       = [(KStr ''camera_angle'', JStr ''Eye Level''), (KStr ''lighting'', JStr ''Natural''),
          (KStr ''composition'', JStr ''Wide Shot''), (KStr ''field_of_view'', JInt 35)]"
proof -
  have sp: "\<not> strip_empty ''INT. WAREHOUSE - NIGHT''"
    by (simp add: strip_empty_def strip_def is_space_def whitespace_def)
  have p: "get_scene_parameters (scene_api numeric_fov_env) (json_loads numeric_fov_env)
             ''INT. WAREHOUSE - NIGHT''
       = [(KStr ''camera_angle'', JStr ''Eye Level''), (KStr ''lighting'', JStr ''Natural''),
          (KStr ''composition'', JStr ''Wide Shot''), (KStr ''field_of_view'', JInt 35)]"
    by (simp add: get_scene_parameters_def scene_parameters_of_def structured_prompt_of_def
          loads_def numeric_fov_env_def DEFAULT_PARAMETERS_def)
  show ?thesis
    using sp
    by (simp add: generate_scene_execute_def Let_def p sample_plugin_def initial_plugin_def
          apply_camera_settings_def dget_default_def dget_def)
       (simp add: numeric_fov_env_def)
qed

subsection \<open>C1: a completed reply without a URL\<close>

text \<open>
  Claim C1 says that a reply with status \<^verbatim>\<open>COMPLETED\<close> in which none of
  \<^verbatim>\<open>result.image_url\<close>, \<^verbatim>\<open>result.urls[0]\<close> and the top-level \<^verbatim>\<open>image_url\<close> is present
  makes the call return \<^verbatim>\<open>None\<close>. \<^verbatim>\<open>_make_api_call\<close> has a branch for it, but does not
  reach it when \<^verbatim>\<open>result\<close> is \<^verbatim>\<open>null\<close>: the membership test
  \<^verbatim>\<open>"image_url" in status_data["result"]\<close> raises \<^verbatim>\<open>TypeError\<close>, the handler of the loop
  logs it, and polling goes on. In the run below the first poll is such a reply and the
  second one carries a URL: the specification and the loop bodies of
  \<^verbatim>\<open>_poll_for_image_result\<close> and \<^verbatim>\<open>_remove_background\<close> return \<^verbatim>\<open>None\<close> at the first
  poll; \<^verbatim>\<open>_make_api_call\<close> sleeps and polls again and returns the file downloaded from
  the second reply.
\<close>

theorem make_api_call_null_result:
  "has_status (image_status null_result_world 0) ''COMPLETED''
   \<and> spec_poll_body (image_status null_result_world 0) = Return None
   \<and> poll_body_of status_step_background (image_status null_result_world 0) = Continue
   \<and> poll_body_of status_step_foreground (image_status null_result_world 0) = Return None
   \<and> poll_body_of status_step_rmbg (image_status null_result_world 0) = Return None
   \<and> completed_background (JObj [(''status'', JStr ''COMPLETED''), (''result'', JNull)])
        = Inl TypeError
   \<and> make_api_call (\<lambda>v. []) null_result_world DEFAULT_PARAMETERS empty_sys
       = (Inr (Some ''/tmp/previz_bg_k3x9.exr''),
          \<lparr>files = {''/tmp/previz_bg_k3x9.exr''},
           events =
             [Post BRIA_IMAGE_ENDPOINT,
              Sleep 1, GetStatus (JStr ''https://engine.prod.bria-api.com/v2/status/42''),
              Sleep 1, GetStatus (JStr ''https://engine.prod.bria-api.com/v2/status/42''),
              Download (JStr ''https://cdn.example/42.exr'')]\<rparr>)"
proof -
  let ?B = "poll_body_of status_step_background"
  have b0: "?B (image_status null_result_world 0) = Continue"
    by (simp add: null_result_world_def poll_body_of_def status_step_background_def
          status_is_def completed_background_def has_nested_def)
  have b1: "?B (image_status null_result_world (Suc 0))
              = Break (JStr ''https://cdn.example/42.exr'')"
    by (simp add: null_result_world_def poll_body_of_def status_step_background_def
          status_is_def completed_background_def has_nested_def)
  have s0: "has_status (image_status null_result_world 0) ''COMPLETED''"
    "spec_poll_body (image_status null_result_world 0) = Return None"
    by (simp_all add: null_result_world_def has_status_def status_is_def spec_poll_body_def
          spec_image_url_def)
  have f0: "poll_body_of status_step_foreground (image_status null_result_world 0) = Return None"
    by (simp add: null_result_world_def poll_body_of_def status_step_foreground_def
          status_is_def completed_foreground_def result_of_def)
  have r0: "poll_body_of status_step_rmbg (image_status null_result_world 0) = Return None"
    by (simp add: null_result_world_def poll_body_of_def status_step_rmbg_def
          status_is_def rmbg_url_def truthy_opt_def)
  have c0: "completed_background (JObj [(''status'', JStr ''COMPLETED''), (''result'', JNull)])
        = Inl TypeError"
    by (simp add: completed_background_def has_nested_def)
  have l: "poll_loop ?B (image_status null_result_world)
             (JStr ''https://engine.prod.bria-api.com/v2/status/42'') (Suc (Suc k)) 0 s
           = (Break (JStr ''https://cdn.example/42.exr''),
              emit (GetStatus (JStr ''https://engine.prod.bria-api.com/v2/status/42''))
                (emit (Sleep 1)
                  (emit (GetStatus (JStr ''https://engine.prod.bria-api.com/v2/status/42''))
                    (emit (Sleep 1) s))))" for s k
    by (simp add: b0 b1 Let_def)
  have m: "make_api_call (\<lambda>v. []) null_result_world DEFAULT_PARAMETERS empty_sys
       = (Inr (Some ''/tmp/previz_bg_k3x9.exr''),
          \<lparr>files = {''/tmp/previz_bg_k3x9.exr''},
           events =
             [Post BRIA_IMAGE_ENDPOINT,
              Sleep 1, GetStatus (JStr ''https://engine.prod.bria-api.com/v2/status/42''),
              Sleep 1, GetStatus (JStr ''https://engine.prod.bria-api.com/v2/status/42''),
              Download (JStr ''https://cdn.example/42.exr'')]\<rparr>)"
    using l[of 58]
    by (simp add: make_api_call_def build_prompt_default Let_def finish_image_def
          download_image_def download_to_def mkstemp_def emit_def empty_sys_def)
       (simp add: null_result_world_def async_reply_def finish_image_def download_image_def
          download_to_def mkstemp_def emit_def Let_def)
  from s0 b0 f0 r0 c0 m show ?thesis by simp
qed

end
